theory Spec2Isabelle
  imports Complex_Main "HOL-Library.Monad_Syntax"
begin

section \<open>Numeric and Python conventions\<close>

text \<open>
  The program computes with IEEE double precision numbers (Python floats and numpy
  float64). They are modelled by exact reals, so every statement below is about the
  arithmetic the code writes down, not about its rounding.

  A computation that may stop is option valued. \<open>None\<close> stands for a raised Python
  exception (IndexError, ZeroDivisionError, IOError, ValueError) and also for a floating
  point division by zero, where numpy would warn and go on with inf or nan: the exact
  model has no such values, so the run is given up there.
\<close>

definition fdiv :: "real \<Rightarrow> real \<Rightarrow> real option" where
  "fdiv a b = (if b = 0 then None else Some (a / b))"

text \<open>\<open>np.arctan2(y, x)\<close>: the angle of the point \<open>(x, y)\<close>, in \<open>(-pi, pi]\<close>.\<close>

definition arctan2 :: "real \<Rightarrow> real \<Rightarrow> real" where
  "arctan2 y x =
     (if 0 < x then arctan (y / x)
      else if x < 0 then (if 0 \<le> y then arctan (y / x) + pi else arctan (y / x) - pi)
      else if 0 < y then pi / 2
      else if y < 0 then - (pi / 2)
      else 0)"

text \<open>\<open>xs[i]\<close> and \<open>xs[i] = v\<close> on a Python list: a negative index counts from the end,
  an index outside \<open>[-len, len)\<close> raises IndexError.\<close>

definition py_index :: "'a list \<Rightarrow> int \<Rightarrow> nat option" where
  "py_index xs i =
     (if 0 \<le> i \<and> i < int (length xs) then Some (nat i)
      else if i < 0 \<and> - int (length xs) \<le> i then Some (nat (int (length xs) + i))
      else None)"

definition py_get :: "'a list \<Rightarrow> int \<Rightarrow> 'a option" where
  "py_get xs i = map_option (\<lambda>j. xs ! j) (py_index xs i)"

definition py_set :: "'a list \<Rightarrow> int \<Rightarrow> 'a \<Rightarrow> 'a list option" where
  "py_set xs i v = map_option (\<lambda>j. xs[j := v]) (py_index xs i)"

text \<open>\<open>int(x)\<close> on a float: truncation towards zero.\<close>

definition py_int :: "real \<Rightarrow> int" where
  "py_int x = (if 0 \<le> x then \<lfloor>x\<rfloor> else \<lceil>x\<rceil>)"

text \<open>\<open>FACT = 180./np.pi\<close> (IGRF12.py and apex.py).\<close>

definition FACT :: real where
  "FACT = 180 / pi"

section \<open>coordinate.py\<close>

definition geodetic2geocentric :: "real \<Rightarrow> real \<Rightarrow> (real \<times> real \<times> real) option" where
  "geodetic2geocentric theta alt = do {
     let ct = cos theta;
     let st = sin theta;
     let a2 = 406806316 / 10;
     let b2 = 40408296;
     let one = a2 * st * st;
     let two = b2 * ct * ct;
     let three = one + two;
     let rho = sqrt three;
     w \<leftarrow> fdiv (a2 * one + b2 * two) three;
     let r = sqrt (alt * (alt + 2 * rho) + w);
     cd \<leftarrow> fdiv (alt + rho) r;
     e \<leftarrow> fdiv (a2 - b2) rho;
     sd \<leftarrow> fdiv (e * ct * st) r;
     let one = ct;
     let ct = ct * cd - st * sd;
     let st = st * cd + one * sd;
     let gccolat = arctan2 st ct;
     let gclon = arctan2 sd cd;
     Some (gccolat, gclon, r)
   }"

definition geocentric2cartesian :: "real \<Rightarrow> real \<Rightarrow> real \<Rightarrow> real \<times> real \<times> real" where
  "geocentric2cartesian lat lon rho =
     (let x = rho * cos lat * cos lon;
          y = rho * cos lat * sin lon;
          z = rho * sin lat
      in (x, y, z))"

definition cartesian2geocentric :: "real \<Rightarrow> real \<Rightarrow> real \<Rightarrow> real \<times> real \<times> real" where
  "cartesian2geocentric x y z =
     (let rho = sqrt (x * x + y * y + z * z);
          lon = arctan2 y x;
          lat = arctan2 z (sqrt (x * x + y * y))
      in (lat, lon, rho))"

text \<open>\<open>np.dot(M, v)\<close> for a matrix given by its rows and a vector: every row must be as
  long as the vector, otherwise numpy raises ValueError.\<close>

definition np_dot :: "real list list \<Rightarrow> real list \<Rightarrow> real list option" where
  "np_dot M v =
     (if list_all (\<lambda>row. length row = length v) M
      then Some (map (\<lambda>row. sum_list (map2 (*) row v)) M)
      else None)"

text \<open>The matrix \<open>spanMat\<close> that \<open>rotateVector\<close> builds, given by its rows.\<close>

definition spanMat :: "real \<Rightarrow> real \<Rightarrow> real list list" where
  "spanMat alpha beta =
     (let ca = cos alpha;
          sa = sin alpha;
          cb = cos beta;
          sb = sin beta
      in [[- sb * ca, - sa, - cb * ca],
          [- sb * sa, ca, - cb * sa],
          [cb, 0, - sb]])"

definition rotateVector :: "real list \<Rightarrow> real \<Rightarrow> real \<Rightarrow> real list option" where
  "rotateVector vec alpha beta = np_dot (spanMat alpha beta) vec"

text \<open>The Gram matrix of the columns of a matrix (its transpose times itself) and the
  Euclidean norm of a vector: the words in which orthogonality is stated.\<close>

definition gram :: "real list list \<Rightarrow> real list list" where
  "gram M = (let cols = transpose M
             in map (\<lambda>c. map (\<lambda>c'. sum_list (map2 (*) c c')) cols) cols)"

definition norm_vec :: "real list \<Rightarrow> real" where
  "norm_vec v = sqrt (sum_list (map (\<lambda>a. a\<^sup>2) v))"

section \<open>IGRF12.py: loadCoeffs\<close>

text \<open>
  What a call does besides returning: the files it opens and the lines it prints, in
  order. A printed line is kept by its kind and the number it shows, not as text.
\<close>

datatype message =
    TableLength nat
  | WillNotWork real
  | DateMustBeInRange
  | OnReturn
  | IntendedUpTo2020
  | ReducedAccuracy real

datatype event = Opened string | Printed message

text \<open>\<open>a.split()\<close>: the maximal runs of characters that are not whitespace. A
  character stands for the code point of its number, so the whitespace of a Python 3
  string below 256 is listed: the blank, the controls 9 to 13 and 28 to 31, and the
  code points 133 (next line) and 160 (no-break space).\<close>

definition is_space :: "char \<Rightarrow> bool" where
  "is_space c = (c \<in> set [CHR '' '', CHR 0x09, CHR 0x0A, CHR 0x0B, CHR 0x0C, CHR 0x0D,
                           CHR 0x1C, CHR 0x1D, CHR 0x1E, CHR 0x1F, CHR 0x85, CHR 0xA0])"

fun split_acc :: "string \<Rightarrow> string \<Rightarrow> string list" where
  "split_acc w [] = (if w = [] then [] else [w])"
| "split_acc w (c # cs) =
     (if is_space c then (if w = [] then split_acc [] cs else w # split_acc [] cs)
      else split_acc (w @ [c]) cs)"

definition py_split :: "string \<Rightarrow> string list" where
  "py_split a = split_acc [] a"

text \<open>The rows \<open>gh2arr\<close> collected from the lines that start with \<open>g\<close> or \<open>h\<close> and a
  blank. \<open>pyfloat\<close> is Python's \<open>float\<close> on a string (\<open>None\<close>: ValueError).\<close>

definition coeff_rows :: "(string \<Rightarrow> real option) \<Rightarrow> string list \<Rightarrow> real list list option" where
  "coeff_rows pyfloat text =
     those (map (\<lambda>a. those (map pyfloat (drop 3 (py_split a))))
                (filter (\<lambda>a. take 2 a = ''g '' \<or> take 2 a = ''h '') text))"

text \<open>\<open>np.array(gh2arr).transpose()\<close> for rows of one length; rows of different
  lengths do not make a matrix (ValueError).\<close>

definition np_transpose :: "real list list \<Rightarrow> real list list option" where
  "np_transpose rows =
     (if list_all (\<lambda>b. length b = length (hd rows)) rows then Some (transpose rows) else None)"

text \<open>The loop over \<open>i in range(N)\<close>: the first 19 columns give their first 120 entries
  (\<open>gh2arr[i][j]\<close> raises IndexError on a shorter column), the later ones all of them.\<close>

fun flatten_cols :: "nat \<Rightarrow> real list list \<Rightarrow> real list option" where
  "flatten_cols i [] = Some []"
| "flatten_cols i (c # cs) = do {
     h \<leftarrow> (if i < 19 then (if 120 \<le> length c then Some (take 120 c) else None) else Some c);
     r \<leftarrow> flatten_cols (Suc i) cs;
     Some (h @ r)
   }"

text \<open>A file system maps a file name to the lines of the file.\<close>

definition loadCoeffs ::
  "(string \<Rightarrow> real option) \<Rightarrow> (string \<rightharpoonup> string list) \<Rightarrow> string \<Rightarrow> event list \<times> real list option" where
  "loadCoeffs pyfloat fs filename =
     (case fs filename \<bind> coeff_rows pyfloat \<bind> np_transpose \<bind> flatten_cols 0 of
        None \<Rightarrow> ([Opened filename], None)
      | Some gh0 \<Rightarrow>
          (let gh = gh0 @ [0]
           in ([Opened filename, Printed (TableLength (length gh))], Some gh)))"

section \<open>IGRF12.py: igrf12syn\<close>

text \<open>Lines 574 to 613: the weights \<open>t\<close> and \<open>tc\<close>, the table offset \<open>ll\<close>, the degree
  \<open>nmx\<close>, the snapshot length \<open>nc\<close> and the bound \<open>kmx\<close> for a date in range.\<close>

record epoch_res =
  e_t :: real
  e_tc :: real
  e_ll :: real
  e_nmx :: int
  e_nc :: int
  e_kmx :: real

definition resolve_epoch :: "int \<Rightarrow> real \<Rightarrow> epoch_res" where
  "resolve_epoch isv date =
     (if 2015 \<le> date then
        (let t = date - 2015;
             tc = 1;
             (t, tc) = (if isv = 1 then (1, 0) else (t, tc));
             ll = 3060;
             nmx = 13;
             nc = nmx * (nmx + 2);
             kmx = real_of_int ((nmx + 1) * (nmx + 2)) / 2
         in \<lparr>e_t = t, e_tc = tc, e_ll = ll, e_nmx = nmx, e_nc = nc, e_kmx = kmx\<rparr>)
      else
        (let t = 0.2 * (date - 1900);
             ll = t;
             one = ll;
             t = t - one;
             (nmx, nc, ll, kmx) =
               (if date < 1995 then
                  (let nmx = 10;
                       nc = nmx * (nmx + 2);
                       ll = real_of_int nc * ll;
                       kmx = real_of_int ((nmx + 1) * (nmx + 2)) / 2
                   in (nmx, nc, ll, kmx))
                else
                  (let nmx = 13;
                       nc = nmx * (nmx + 2);
                       ll = 0.2 * (date - 1995);
                       ll = 120 * 19 + real_of_int nc * ll;
                       kmx = real_of_int ((nmx + 1) * (nmx + 2)) / 2
                   in (nmx, nc, ll, kmx)));
             tc = 1 - t;
             (tc, t) = (if isv = 1 then (- 0.2, 0.2) else (tc, t))
         in \<lparr>e_t = t, e_tc = tc, e_ll = ll, e_nmx = nmx, e_nc = nc, e_kmx = kmx\<rparr>))"

text \<open>Lines 631 to 642: the reduction to geocentric coordinates on the WGS84 spheroid,
  from \<open>ct\<close>, \<open>st\<close> and \<open>alt\<close> to \<open>(r, cd, sd, ct, st)\<close>.\<close>

definition geodetic_reduction ::
  "real \<Rightarrow> real \<Rightarrow> real \<Rightarrow> (real \<times> real \<times> real \<times> real \<times> real) option" where
  "geodetic_reduction ct st alt = do {
     let a2 = 406806316 / 10;
     let b2 = 40408296;
     let one = a2 * st * st;
     let two = b2 * ct * ct;
     let three = one + two;
     let rho = sqrt three;
     w \<leftarrow> fdiv (a2 * one + b2 * two) three;
     let r = sqrt (alt * (alt + 2 * rho) + w);
     cd \<leftarrow> fdiv (alt + rho) r;
     e \<leftarrow> fdiv (a2 - b2) rho;
     sd \<leftarrow> fdiv (e * ct * st) r;
     let one = ct;
     let ct = ct * cd - st * sd;
     let st = st * cd + one * sd;
     Some (r, cd, sd, ct, st)
   }"

text \<open>The variables the loop over \<open>k\<close> reads and writes. \<open>fn\<close> and \<open>gn\<close> are not bound
  before the loop (\<open>None\<close>); reading an unbound name raises.\<close>

record syn_state =
  s_l :: int
  s_m :: int
  s_n :: int
  s_fn :: "int option"
  s_gn :: "int option"
  s_rr :: real
  s_x :: real
  s_y :: real
  s_z :: real
  s_p :: "real list"
  s_q :: "real list"
  s_cl :: "real list"
  s_sl :: "real list"

text \<open>Lines 655 to 671: the entries \<open>p[k - 1]\<close> and \<open>q[k - 1]\<close>, and for a sectoral
  term past \<open>k = 3\<close> also \<open>cl[m - 1]\<close> and \<open>sl[m - 1]\<close>.\<close>

definition legendre_step :: "real \<Rightarrow> real \<Rightarrow> int \<Rightarrow> syn_state \<Rightarrow> syn_state option" where
  "legendre_step ct st k s =
     (let m = s_m s; n = s_n s; fm = m in
      if m \<noteq> n then do {
        fn \<leftarrow> s_fn s;
        gn \<leftarrow> s_gn s;
        let gmm = m * m;
        let one = sqrt (real_of_int (fn * fn - gmm));
        two \<leftarrow> fdiv (sqrt (real_of_int (gn * gn - gmm))) one;
        three \<leftarrow> fdiv (real_of_int (fn + gn)) one;
        let i = k - n;
        let j = i - n + 1;
        pi \<leftarrow> py_get (s_p s) (i - 1);
        pj \<leftarrow> py_get (s_p s) (j - 1);
        p \<leftarrow> py_set (s_p s) (k - 1) (three * ct * pi - two * pj);
        qi \<leftarrow> py_get (s_q s) (i - 1);
        pi \<leftarrow> py_get p (i - 1);
        qj \<leftarrow> py_get (s_q s) (j - 1);
        q \<leftarrow> py_set (s_q s) (k - 1) (three * (ct * qi - st * pi) - two * qj);
        Some (s\<lparr>s_p := p, s_q := q\<rparr>)
      }
      else if k \<noteq> 3 then do {
        h \<leftarrow> fdiv 0.5 (real_of_int fm);
        let one = sqrt (1 - h);
        let j = k - n - 1;
        pj \<leftarrow> py_get (s_p s) (j - 1);
        p \<leftarrow> py_set (s_p s) (k - 1) (one * st * pj);
        qj \<leftarrow> py_get (s_q s) (j - 1);
        pj \<leftarrow> py_get p (j - 1);
        q \<leftarrow> py_set (s_q s) (k - 1) (one * (st * qj + ct * pj));
        ca \<leftarrow> py_get (s_cl s) (m - 2);
        c0 \<leftarrow> py_get (s_cl s) 0;
        sa \<leftarrow> py_get (s_sl s) (m - 2);
        s0 \<leftarrow> py_get (s_sl s) 0;
        cl \<leftarrow> py_set (s_cl s) (m - 1) (ca * c0 - sa * s0);
        sa \<leftarrow> py_get (s_sl s) (m - 2);
        c0 \<leftarrow> py_get cl 0;
        ca \<leftarrow> py_get cl (m - 2);
        s0 \<leftarrow> py_get (s_sl s) 0;
        sl \<leftarrow> py_set (s_sl s) (m - 1) (sa * c0 + ca * s0);
        Some (s\<lparr>s_p := p, s_q := q, s_cl := cl, s_sl := sl\<rparr>)
      }
      else Some s)"

text \<open>Lines 683 to 686: what one term adds to the east component \<open>y\<close>.\<close>

definition east_increment ::
  "real \<Rightarrow> real \<Rightarrow> real \<Rightarrow> real \<Rightarrow> real \<Rightarrow> real \<Rightarrow> real \<Rightarrow> real \<Rightarrow> real \<Rightarrow> real option" where
  "east_increment st ct one two clm slm fm pk qk =
     (if st = 0 then Some ((one * slm - two * clm) * qk * ct)
      else fdiv ((one * slm - two * clm) * fm * pk) st)"

text \<open>Lines 673 and 679: the coefficient built from the two table entries at offset
  \<open>lm\<close> and \<open>lm + nc\<close> with the weights \<open>tc\<close> and \<open>t\<close>. The shift \<open>d\<close> is 1 for the
  first read of an iteration (\<open>gh[int(lm) - 1]\<close>) and 0 for the second (\<open>gh[int(lm)]\<close>).\<close>

definition gh_coeff :: "real list \<Rightarrow> real \<Rightarrow> real \<Rightarrow> real \<Rightarrow> int \<Rightarrow> int \<Rightarrow> real option" where
  "gh_coeff gh tc t lm nc d = do {
     a \<leftarrow> py_get gh (py_int lm - d);
     b \<leftarrow> py_get gh (py_int (lm + real_of_int nc) - d);
     Some (tc * a + t * b)
   }"

text \<open>Lines 672 to 688: the contribution of one term to \<open>x\<close>, \<open>y\<close> and \<open>z\<close>. \<open>fm\<close> was
  set to \<open>m\<close> on line 654 and \<open>lm\<close> on line 672, before the block for \<open>m = 0\<close>.\<close>

definition synth_step ::
  "real list \<Rightarrow> epoch_res \<Rightarrow> real \<Rightarrow> real \<Rightarrow> int \<Rightarrow> syn_state \<Rightarrow> syn_state option" where
  "synth_step gh e ct st k s = do {
     let fm = s_m s;
     let lm = e_ll e + real_of_int (s_l s);
     c \<leftarrow> gh_coeff gh (e_tc e) (e_t e) lm (e_nc e) 1;
     let one = c * s_rr s;
     s \<leftarrow> (if s_m s = 0 then do {
              fn \<leftarrow> s_fn s;
              qk \<leftarrow> py_get (s_q s) (k - 1);
              pk \<leftarrow> py_get (s_p s) (k - 1);
              Some (s\<lparr>s_x := s_x s + one * qk,
                      s_z := s_z s - (real_of_int fn + 1) * one * pk,
                      s_l := s_l s + 1,
                      s_m := s_m s + 1\<rparr>)
            }
            else Some s);
     c \<leftarrow> gh_coeff gh (e_tc e) (e_t e) lm (e_nc e) 0;
     let two = c * s_rr s;
     clm \<leftarrow> py_get (s_cl s) (s_m s - 1);
     slm \<leftarrow> py_get (s_sl s) (s_m s - 1);
     let three = one * clm + two * slm;
     qk \<leftarrow> py_get (s_q s) (k - 1);
     fn \<leftarrow> s_fn s;
     pk \<leftarrow> py_get (s_p s) (k - 1);
     inc \<leftarrow> east_increment st ct one two clm slm (real_of_int fm) pk qk;
     Some (s\<lparr>s_x := s_x s + three * qk,
             s_z := s_z s - (real_of_int fn + 1) * three * pk,
             s_y := s_y s + inc,
             s_l := s_l s + 2,
             s_m := s_m s + 1\<rparr>)
   }"

text \<open>Lines 653 to 695: one iteration of the loop over \<open>k\<close>.\<close>

definition syn_step ::
  "real list \<Rightarrow> epoch_res \<Rightarrow> real \<Rightarrow> real \<Rightarrow> real \<Rightarrow> int \<Rightarrow> syn_state \<Rightarrow> syn_state option" where
  "syn_step gh e ct st ratio k s =
     (if s_m s \<le> s_n s then legendre_step ct st k s \<bind> synth_step gh e ct st k
      else
        (let m = 0;
             n = s_n s + 1;
             rr = s_rr s * ratio;
             fn = n;
             gn = n - 1;
             m = m + 1
         in Some (s\<lparr>s_m := m, s_n := n, s_rr := rr, s_fn := Some fn, s_gn := Some gn\<rparr>)))"

text \<open>\<open>for k in range(2, int(kmx))\<close>, over the list of the values of \<open>k\<close>.\<close>

fun syn_loop :: "(int \<Rightarrow> syn_state \<Rightarrow> syn_state option) \<Rightarrow> int list \<Rightarrow> syn_state \<Rightarrow> syn_state option" where
  "syn_loop f [] s = Some s"
| "syn_loop f (k # ks) s = f k s \<bind> syn_loop f ks"

text \<open>Lines 615 to 702: the synthesis for a date in range, from the resolved epoch.\<close>

definition synthesis ::
  "real list \<Rightarrow> epoch_res \<Rightarrow> int \<Rightarrow> real \<Rightarrow> real \<Rightarrow> real \<Rightarrow> (real \<times> real \<times> real \<times> real) option" where
  "synthesis gh e itype alt colat elong = do {
     let p = replicate 105 0;
     let q = replicate 105 0;
     let cl = replicate 13 0;
     let sl = replicate 13 0;
     let r = alt;
     let one = colat / FACT;
     let ct = cos one;
     let st = sin one;
     let one = elong / FACT;
     cl \<leftarrow> py_set cl 0 (cos one);
     sl \<leftarrow> py_set sl 0 (sin one);
     let cd = 1;
     let sd = 0;
     (r, cd, sd, ct, st) \<leftarrow>
        (if itype = 1 then geodetic_reduction ct st alt else Some (r, cd, sd, ct, st));
     ratio \<leftarrow> fdiv 6371.2 r;
     let rr = ratio * ratio;
     p \<leftarrow> py_set p 0 1;
     p \<leftarrow> py_set p 2 st;
     q \<leftarrow> py_set q 0 0;
     q \<leftarrow> py_set q 2 ct;
     s \<leftarrow> syn_loop (syn_step gh e ct st ratio) [2 .. py_int (e_kmx e) - 1]
            \<lparr>s_l = 1, s_m = 1, s_n = 0, s_fn = None, s_gn = None, s_rr = rr,
             s_x = 0, s_y = 0, s_z = 0, s_p = p, s_q = q, s_cl = cl, s_sl = sl\<rparr>;
     let x = s_x s;
     let y = s_y s;
     let z = s_z s;
     let one = x;
     let x = x * cd + z * sd;
     let z = z * cd - one * sd;
     let f = sqrt (x * x + y * y + z * z);
     Some (x, y, z, f)
   }"

text \<open>\<open>igrf12syn\<close> after its table is loaded: the check of the date, the warning for a
  date past 2020, and the synthesis.\<close>

definition igrf12syn_body ::
  "real list \<Rightarrow> int \<Rightarrow> real \<Rightarrow> int \<Rightarrow> real \<Rightarrow> real \<Rightarrow> real
     \<Rightarrow> event list \<times> (real \<times> real \<times> real \<times> real) option" where
  "igrf12syn_body gh isv date itype alt colat elong =
     (let x = 0; y = 0; z = 0 in
      if date < 1900 \<or> date > 2025 then
        (let f = 1
         in ([Printed (WillNotWork date), Printed DateMustBeInRange, Printed OnReturn],
             Some (x, y, z, f)))
      else
        (if 2015 \<le> date \<and> 2020 < date then [Printed IntendedUpTo2020, Printed (ReducedAccuracy date)]
         else [],
         synthesis gh (resolve_epoch isv date) itype alt colat elong))"

text \<open>\<open>igrf12syn\<close>: line 561 loads the table from the file \<open>igrf12coeffs.txt\<close>, whatever
  the arguments are, and the rest of the function works on that table.\<close>

definition igrf12syn ::
  "(string \<Rightarrow> real option) \<Rightarrow> (string \<rightharpoonup> string list) \<Rightarrow> int \<Rightarrow> real \<Rightarrow> int \<Rightarrow> real \<Rightarrow> real \<Rightarrow> real
     \<Rightarrow> event list \<times> (real \<times> real \<times> real \<times> real) option" where
  "igrf12syn pyfloat fs isv date itype alt colat elong =
     (case loadCoeffs pyfloat fs ''igrf12coeffs.txt'' of
        (evs, None) \<Rightarrow> (evs, None)
      | (evs, Some gh) \<Rightarrow>
          (let (evs', res) = igrf12syn_body gh isv date itype alt colat elong
           in (evs @ evs', res)))"

section \<open>apex.py\<close>

text \<open>
  The four containers \<open>itrace\<close> updates in place: the lists \<open>Y\<close> and \<open>YOLD\<close>, the
  3 by 3 array \<open>YAPX\<close> and the 3 by 4 list of lists \<open>YP\<close>. \<open>findApex\<close> creates them
  as four separate objects, so passing the record along is all the sharing there is.
\<close>

record trace_state =
  Y :: "real list"
  YOLD :: "real list"
  YAPX :: "real list list"
  YP :: "real list list"

text \<open>\<open>M[i][j]\<close> and \<open>M[i][j] = v\<close>.\<close>

definition get2 :: "real list list \<Rightarrow> int \<Rightarrow> int \<Rightarrow> real option" where
  "get2 M i j = py_get M i \<bind> (\<lambda>row. py_get row j)"

definition set2 :: "real list list \<Rightarrow> int \<Rightarrow> int \<Rightarrow> real \<Rightarrow> real list list option" where
  "set2 M i j v = do {
     row \<leftarrow> py_get M i;
     row' \<leftarrow> py_set row j v;
     py_set M i row'
   }"

definition getY :: "int \<Rightarrow> trace_state \<Rightarrow> real option" where
  "getY i s = py_get (Y s) i"

definition getYOLD :: "int \<Rightarrow> trace_state \<Rightarrow> real option" where
  "getYOLD i s = py_get (YOLD s) i"

definition getYAPX :: "int \<Rightarrow> int \<Rightarrow> trace_state \<Rightarrow> real option" where
  "getYAPX i j s = get2 (YAPX s) i j"

definition getYP :: "int \<Rightarrow> int \<Rightarrow> trace_state \<Rightarrow> real option" where
  "getYP i j s = get2 (YP s) i j"

definition setY :: "int \<Rightarrow> real \<Rightarrow> trace_state \<Rightarrow> trace_state option" where
  "setY i v s = map_option (\<lambda>l. s\<lparr>Y := l\<rparr>) (py_set (Y s) i v)"

definition setYOLD :: "int \<Rightarrow> real \<Rightarrow> trace_state \<Rightarrow> trace_state option" where
  "setYOLD i v s = map_option (\<lambda>l. s\<lparr>YOLD := l\<rparr>) (py_set (YOLD s) i v)"

definition setYAPX :: "int \<Rightarrow> int \<Rightarrow> real \<Rightarrow> trace_state \<Rightarrow> trace_state option" where
  "setYAPX i j v s = map_option (\<lambda>M. s\<lparr>YAPX := M\<rparr>) (set2 (YAPX s) i j v)"

definition setYP :: "int \<Rightarrow> int \<Rightarrow> real \<Rightarrow> trace_state \<Rightarrow> trace_state option" where
  "setYP i j v s = map_option (\<lambda>M. s\<lparr>YP := M\<rparr>) (set2 (YP s) i j v)"

text \<open>A \<open>for\<close> loop over a list of indices, stopping at the first failure.\<close>

fun py_for :: "(int \<Rightarrow> 's \<Rightarrow> 's option) \<Rightarrow> int list \<Rightarrow> 's \<Rightarrow> 's option" where
  "py_for f [] s = Some s"
| "py_for f (i # is) s = f i s \<bind> py_for f is"

text \<open>Lines 56 to 83: the body of the loop over \<open>I\<close> for \<open>NSTP \<le> 7\<close>. A step count that
  is none of 1 to 7 matches no branch and changes nothing.\<close>

definition bootstrap_I :: "int \<Rightarrow> real \<Rightarrow> int \<Rightarrow> trace_state \<Rightarrow> trace_state option" where
  "bootstrap_I NSTP DS I s =
     (let D2 = DS / 2; D6 = DS / 6; D12 = DS / 12; D24 = DS / 24 in
      if NSTP = 1 then do {
        a \<leftarrow> getYP I 3 s;
        s \<leftarrow> setYP I 0 a s;
        a \<leftarrow> getY I s;
        s \<leftarrow> setYOLD I a s;
        a \<leftarrow> getY I s;
        s \<leftarrow> setYAPX I 0 a s;
        yold \<leftarrow> getYOLD I s;
        yp0 \<leftarrow> getYP I 0 s;
        setY I (yold + DS * yp0) s
      }
      else if NSTP = 2 then do {
        a \<leftarrow> getYP I 3 s;
        s \<leftarrow> setYP I 1 a s;
        yold \<leftarrow> getYOLD I s;
        yp1 \<leftarrow> getYP I 1 s;
        yp0 \<leftarrow> getYP I 0 s;
        setY I (yold + D2 * (yp1 + yp0)) s
      }
      else if NSTP = 3 then do {
        yold \<leftarrow> getYOLD I s;
        yp3 \<leftarrow> getYP I 3 s;
        yp1 \<leftarrow> getYP I 1 s;
        yp0 \<leftarrow> getYP I 0 s;
        setY I (yold + D6 * (2 * yp3 + yp1 + 3 * yp0)) s
      }
      else if NSTP = 4 then do {
        a \<leftarrow> getYP I 3 s;
        s \<leftarrow> setYP I 1 a s;
        a \<leftarrow> getY I s;
        s \<leftarrow> setYAPX I 1 a s;
        a \<leftarrow> getY I s;
        s \<leftarrow> setYOLD I a s;
        yold \<leftarrow> getYOLD I s;
        yp1 \<leftarrow> getYP I 1 s;
        yp0 \<leftarrow> getYP I 0 s;
        setY I (yold + D2 * (3 * yp1 - yp0)) s
      }
      else if NSTP = 5 then do {
        yold \<leftarrow> getYOLD I s;
        yp3 \<leftarrow> getYP I 3 s;
        yp1 \<leftarrow> getYP I 1 s;
        yp0 \<leftarrow> getYP I 0 s;
        setY I (yold + D12 * (5 * yp3 + 8 * yp1 - yp0)) s
      }
      else if NSTP = 6 then do {
        a \<leftarrow> getYP I 3 s;
        s \<leftarrow> setYP I 2 a s;
        a \<leftarrow> getY I s;
        s \<leftarrow> setYOLD I a s;
        a \<leftarrow> getY I s;
        s \<leftarrow> setYAPX I 2 a s;
        yold \<leftarrow> getYOLD I s;
        yp2 \<leftarrow> getYP I 2 s;
        yp1 \<leftarrow> getYP I 1 s;
        yp0 \<leftarrow> getYP I 0 s;
        setY I (yold + D12 * (23 * yp2 - 16 * yp1 + 5 * yp0)) s
      }
      else if NSTP = 7 then do {
        a \<leftarrow> getYAPX I 1 s;
        s \<leftarrow> setYAPX I 0 a s;
        a \<leftarrow> getYAPX I 2 s;
        s \<leftarrow> setYAPX I 1 a s;
        yold \<leftarrow> getYOLD I s;
        yp3 \<leftarrow> getYP I 3 s;
        yp2 \<leftarrow> getYP I 2 s;
        yp1 \<leftarrow> getYP I 1 s;
        yp0 \<leftarrow> getYP I 0 s;
        s \<leftarrow> setY I (yold + D24 * (9 * yp3 + 19 * yp2 - 5 * yp1 + yp0)) s;
        a \<leftarrow> getY I s;
        setYAPX I 2 a s
      }
      else Some s)"

text \<open>Lines 91 to 98: the body of the loop over \<open>I\<close> for \<open>NSTP > 7\<close>, with its inner loop
  over \<open>J\<close>.\<close>

definition adams_I :: "real \<Rightarrow> int \<Rightarrow> trace_state \<Rightarrow> trace_state option" where
  "adams_I DS I s =
     (let D24 = DS / 24 in do {
        a \<leftarrow> getYAPX I 1 s;
        s \<leftarrow> setYAPX I 0 a s;
        a \<leftarrow> getY I s;
        s \<leftarrow> setYAPX I 1 a s;
        a \<leftarrow> getY I s;
        s \<leftarrow> setYOLD I a s;
        yold \<leftarrow> getYOLD I s;
        yp3 \<leftarrow> getYP I 3 s;
        yp2 \<leftarrow> getYP I 2 s;
        yp1 \<leftarrow> getYP I 1 s;
        yp0 \<leftarrow> getYP I 0 s;
        s \<leftarrow> setY I (yold + D24 * (55 * yp3 - 59 * yp2 + 37 * yp1 - 9 * yp0)) s;
        a \<leftarrow> getY I s;
        s \<leftarrow> setYAPX I 2 a s;
        py_for (\<lambda>J s. getYP I (J + 1) s \<bind> (\<lambda>a. setYP I J a s)) [0, 1, 2] s
      })"

text \<open>The radius \<open>np.sqrt(v[0]**2 + v[1]**2 + v[2]**2)\<close> of a point, and of column \<open>j\<close>
  of \<open>YAPX\<close>.\<close>

definition radius :: "real list \<Rightarrow> real option" where
  "radius v = do {
     a \<leftarrow> py_get v 0;
     b \<leftarrow> py_get v 1;
     c \<leftarrow> py_get v 2;
     Some (sqrt (a\<^sup>2 + b\<^sup>2 + c\<^sup>2))
   }"

definition radius_col :: "real list list \<Rightarrow> int \<Rightarrow> real option" where
  "radius_col M j = do {
     a \<leftarrow> get2 M 0 j;
     b \<leftarrow> get2 M 1 j;
     c \<leftarrow> get2 M 2 j;
     Some (sqrt (a\<^sup>2 + b\<^sup>2 + c\<^sup>2))
   }"

text \<open>\<open>itrace\<close>: the returned flag and the containers after the call.\<close>

definition itrace ::
  "trace_state \<Rightarrow> real \<Rightarrow> real \<Rightarrow> real \<Rightarrow> real \<Rightarrow> real \<Rightarrow> real \<Rightarrow> int \<Rightarrow> (bool \<times> trace_state) option" where
  "itrace s BX BY BZ BB SGN DS NSTP = do {
     a \<leftarrow> fdiv (SGN * BX) BB;
     s \<leftarrow> setYP 0 3 a s;
     a \<leftarrow> fdiv (SGN * BY) BB;
     s \<leftarrow> setYP 1 3 a s;
     a \<leftarrow> fdiv (SGN * BZ) BB;
     s \<leftarrow> setYP 2 3 a s;
     if NSTP \<le> 7 then do {
       s \<leftarrow> py_for (bootstrap_I NSTP DS) [0, 1, 2] s;
       if NSTP = 6 \<or> NSTP = 7 then do {
         RC \<leftarrow> radius_col (YAPX s) 2;
         RP \<leftarrow> radius_col (YAPX s) 1;
         if RC < RP then Some (True, s) else Some (False, s)
       }
       else Some (False, s)
     }
     else do {
       s \<leftarrow> py_for (adams_I DS) [0, 1, 2] s;
       RC \<leftarrow> radius (Y s);
       RP \<leftarrow> radius (YOLD s);
       if RC < RP then Some (True, s) else Some (False, s)
     }
   }"

text \<open>
  \<open>igrf12syn\<close> and \<open>getCoeffs\<close> are imported from a module \<open>igrf\<close> that is not among the
  source files, so \<open>northPole\<close> and \<open>findApex\<close> take them as parameters: \<open>syn\<close> gives the
  four numbers \<open>igrf12syn\<close> returns, \<open>getCoeffs\<close> the two tables \<open>g\<close> and \<open>h\<close>
  (\<open>None\<close>: the call raises).
\<close>

type_synonym syn_fun = "int \<Rightarrow> real \<Rightarrow> int \<Rightarrow> real \<Rightarrow> real \<Rightarrow> real \<Rightarrow> (real \<times> real \<times> real \<times> real) option"

type_synonym coeffs_fun = "real \<Rightarrow> (real list list \<times> real list list) option"

definition northPole :: "coeffs_fun \<Rightarrow> real \<Rightarrow> (real \<times> real) option" where
  "northPole getCoeffs date = do {
     (g, h) \<leftarrow> getCoeffs date;
     g1 \<leftarrow> py_get g 1;
     g10 \<leftarrow> py_get g1 0;
     g11 \<leftarrow> py_get g1 1;
     h1 \<leftarrow> py_get h 1;
     h11 \<leftarrow> py_get h1 1;
     c \<leftarrow> fdiv g10 (sqrt (g10\<^sup>2 + g11\<^sup>2 + h11\<^sup>2));
     let colat = arccos c;
     let elong = arctan2 h11 g11;
     Some (colat * FACT - 90, elong * FACT - 180)
   }"

text \<open>The variables of the loop of \<open>findApex\<close>.\<close>

record apex_state =
  ts :: trace_state
  step :: int
  arrive :: bool
  gclat :: real
  gclon :: real
  gcrho :: real
  trace :: "real list list"

text \<open>Lines 148 to 158 without \<open>step += 1\<close> (line 156), which \<open>findApex_loop\<close> adds.\<close>

definition findApex_body ::
  "syn_fun \<Rightarrow> real \<Rightarrow> real \<Rightarrow> real \<Rightarrow> real \<Rightarrow> real \<Rightarrow> apex_state \<Rightarrow> apex_state option" where
  "findApex_body syn date ctp stp nlon sgn' s = do {
     let stngml = ctp * sin (gclat s) + stp * cos (gclat s) * cos (gclon s - nlon);
     let cgml2 = max (1 - stngml\<^sup>2) 0.25;
     let DS = gcrho s * 0.06 / cgml2 - 370;
     (bx, by, bz, bb) \<leftarrow> syn 0 date 2 (gcrho s) (gclat s * FACT) (gclon s * FACT);
     B \<leftarrow> rotateVector [bx, by, bz] (gclon s) (gclat s);
     (Bx, By, Bz) \<leftarrow> (case B of [a, b, c] \<Rightarrow> Some (a, b, c) | _ \<Rightarrow> None);
     (arr, t) \<leftarrow> itrace (ts s) Bx By Bz bb sgn' DS (step s);
     y0 \<leftarrow> getY 0 t;
     y1 \<leftarrow> getY 1 t;
     y2 \<leftarrow> getY 2 t;
     let (lat', lon', rho') = cartesian2geocentric y0 y1 y2;
     Some (s\<lparr>ts := t, arrive := arr, gclat := lat', gclon := lon', gcrho := rho',
             trace := trace s @ [Y t]\<rparr>)
   }"

text \<open>\<open>while not arrive and step < 100\<close>.\<close>

function findApex_loop :: "(apex_state \<Rightarrow> apex_state option) \<Rightarrow> apex_state \<Rightarrow> apex_state option" where
  "findApex_loop body s =
     (if \<not> arrive s \<and> step s < 100
      then (case body s of
              None \<Rightarrow> None
            | Some s' \<Rightarrow> findApex_loop body (s'\<lparr>step := step s + 1\<rparr>))
      else Some s)"
  by pat_completeness auto
termination
  by (relation "measure (\<lambda>(body, s). nat (100 - step s))") auto

declare findApex_loop.simps [simp del]

text \<open>The launch point: lines 132 to 134, the position \<open>[x0, y0, z0]\<close> with its
  geocentric latitude, longitude and radius.\<close>

definition launch :: "real \<Rightarrow> real \<Rightarrow> real \<Rightarrow> (real list \<times> real \<times> real \<times> real) option" where
  "launch lat lon alt = do {
     (gccolat, plon, rho) \<leftarrow> geodetic2geocentric (pi / 2 - lat / FACT) alt;
     let lat' = pi / 2 - gccolat;
     let lon' = lon / FACT;
     let (x0, y0, z0) = geocentric2cartesian lat' lon' rho;
     Some ([x0, y0, z0], lat', lon', rho)
   }"

text \<open>Lines 138 to 146: the loop variables before the first iteration.\<close>

definition apex_init :: "real list \<Rightarrow> real \<Rightarrow> real \<Rightarrow> real \<Rightarrow> apex_state" where
  "apex_init p0 lat' lon' rho =
     \<lparr>ts = \<lparr>Y = p0, YOLD = [0, 0, 0],
             YAPX = [[0, 0, 0], [0, 0, 0], [0, 0, 0]],
             YP = [[0, 0, 0, 0], [0, 0, 0, 0], [0, 0, 0, 0]]\<rparr>,
      step = 0, arrive = False, gclat = lat', gclon = lon', gcrho = rho, trace = [p0]\<rparr>"

text \<open>\<open>findApex\<close> up to the end of its loop: the final values of the loop variables.\<close>

definition findApex_run ::
  "syn_fun \<Rightarrow> coeffs_fun \<Rightarrow> real \<Rightarrow> real \<Rightarrow> real \<Rightarrow> real \<Rightarrow> apex_state option" where
  "findApex_run syn getCoeffs lat lon alt date = do {
     (nlat, nlon) \<leftarrow> northPole getCoeffs date;
     let nlat = nlat / FACT;
     let nlon = nlon / FACT;
     let ctp = cos (pi / 2 - nlat);
     let stp = sin (pi / 2 - nlat);
     (p0, lat', lon', rho) \<leftarrow> launch lat lon alt;
     (bx, by, bz, bb) \<leftarrow> syn 0 date 2 rho (lat' * FACT) (lon' * FACT);
     let sgn' = - sgn bz;
     findApex_loop (findApex_body syn date ctp stp nlon sgn') (apex_init p0 lat' lon' rho)
   }"

definition findApex ::
  "syn_fun \<Rightarrow> coeffs_fun \<Rightarrow> real \<Rightarrow> real \<Rightarrow> real \<Rightarrow> real \<Rightarrow> real list list option" where
  "findApex syn getCoeffs lat lon alt date =
     map_option trace (findApex_run syn getCoeffs lat lon alt date)"

text \<open>\<open>igrf12syn\<close> of IGRF12.py as the field function of \<open>findApex\<close>: its returned
  numbers, for a given \<open>float\<close> and file system.\<close>

definition syn_of_igrf12 :: "(string \<Rightarrow> real option) \<Rightarrow> (string \<rightharpoonup> string list) \<Rightarrow> syn_fun" where
  "syn_of_igrf12 pyfloat fs isv date itype alt colat elong
     = snd (igrf12syn pyfloat fs isv date itype alt colat elong)"

section \<open>Proof-side definitions for igrf12syn\<close>

text \<open>
  The loop over \<open>k\<close> moves its counters \<open>l\<close>, \<open>m\<close> and \<open>n\<close> the same way whatever the
  numbers are. \<open>ctrl_next\<close> is that movement for \<open>1 \<le> m\<close>, \<open>step_ok\<close> says that the
  list accesses and divisions of one iteration are in range, and \<open>shape\<close> is what every
  iteration keeps: the lengths of the four lists, and \<open>fn\<close> and \<open>gn\<close> bound once \<open>1 \<le> n\<close>.
\<close>

definition shape :: "syn_state \<Rightarrow> bool" where
  "shape s \<longleftrightarrow> length (s_p s) = 105 \<and> length (s_q s) = 105 \<and> length (s_cl s) = 13
     \<and> length (s_sl s) = 13
     \<and> (1 \<le> s_n s \<longrightarrow> s_fn s = Some (s_n s) \<and> s_gn s = Some (s_n s - 1))"

fun ctrl_next :: "int \<times> int \<times> int \<Rightarrow> int \<times> int \<times> int" where
  "ctrl_next (l, m, n) = (if m \<le> n then (l + 2, m + 1, n) else (l, 1, n + 1))"

fun step_ok :: "int \<Rightarrow> int \<Rightarrow> int \<times> int \<times> int \<Rightarrow> bool" where
  "step_ok lmax k (l, m, n) =
     (if m \<le> n then
        1 \<le> m \<and> m \<le> 13 \<and> 1 \<le> l \<and> l \<le> lmax \<and> 1 \<le> k \<and> k \<le> 105
        \<and> (if m \<noteq> n then 0 \<le> k - n - 1 \<and> 0 \<le> k - 2 * n
            else if k \<noteq> 3 then 2 \<le> m \<and> 0 \<le> k - n - 2 else True)
      else 0 \<le> n)"

fun ctrl_ok :: "int \<Rightarrow> int list \<Rightarrow> int \<times> int \<times> int \<Rightarrow> bool" where
  "ctrl_ok lmax [] c = True"
| "ctrl_ok lmax (k # ks) c = (step_ok lmax k c \<and> ctrl_ok lmax ks (ctrl_next c))"

text \<open>A coefficient file of the right shape as a concrete input: 195 rows of 25 values,
  all zero, read with a \<open>float\<close> that knows the word \<open>0\<close>.\<close>

definition zero_line :: string where
  "zero_line = ''g 1 0'' @ concat (replicate 25 '' 0'')"

definition zero_float :: "string \<Rightarrow> real option" where
  "zero_float w = (if w = ''0'' then Some 0 else None)"

definition zero_file :: "string \<rightharpoonup> string list" where
  "zero_file = [''igrf12coeffs.txt'' \<mapsto> replicate 195 zero_line]"


text \<open>A small state and epoch on which one iteration of the loop can be run by hand.\<close>

definition demo_state :: syn_state where
  "demo_state = \<lparr>s_l = 1, s_m = 1, s_n = 1, s_fn = Some 1, s_gn = Some 0, s_rr = 1,
                  s_x = 0, s_y = 0, s_z = 0, s_p = [1, 0, 1], s_q = [0, 0, 1],
                  s_cl = [1], s_sl = [0]\<rparr>"

definition demo_epoch :: epoch_res where
  "demo_epoch = \<lparr>e_t = 0, e_tc = 1, e_ll = 0, e_nmx = 1, e_nc = 1, e_kmx = 3\<rparr>"

section \<open>Proof-side definitions for apex.py\<close>

text \<open>The shape of the containers \<open>findApex\<close> creates, and a column of a matrix given
  by its rows.\<close>

definition shape3 :: "trace_state \<Rightarrow> bool" where
  "shape3 t \<longleftrightarrow> length (Y t) = 3 \<and> length (YOLD t) = 3
     \<and> length (YAPX t) = 3 \<and> list_all (\<lambda>r. length r = 3) (YAPX t)
     \<and> length (YP t) = 3 \<and> list_all (\<lambda>r. length r = 4) (YP t)"

definition column :: "real list list \<Rightarrow> nat \<Rightarrow> real list" where
  "column M j = map (\<lambda>row. row ! j) M"

text \<open>What every iteration keeps when the field function returns \<open>(0, 0, 0, 1)\<close>: the
  position stays at the launch point \<open>p0\<close> and all derivatives are zero.\<close>

definition frozen :: "real list \<Rightarrow> int \<Rightarrow> apex_state \<Rightarrow> bool" where
  "frozen p0 n s \<longleftrightarrow> step s = n \<and> \<not> arrive s \<and> trace s = replicate (nat n + 1) p0
     \<and> Y (ts s) = p0 \<and> YP (ts s) = [[0, 0, 0, 0], [0, 0, 0, 0], [0, 0, 0, 0]] \<and> shape3 (ts s)
     \<and> (2 \<le> n \<longrightarrow> YOLD (ts s) = p0)
     \<and> (5 \<le> n \<longrightarrow> column (YAPX (ts s)) 1 = p0)
     \<and> (7 \<le> n \<longrightarrow> column (YAPX (ts s)) 2 = p0)"

text \<open>Test data: the degree 1 coefficients of the 2015 model for every date, and
  containers at step 6 whose current point is nearer to the centre than the stored one.\<close>

definition igrf2015_dipole :: coeffs_fun where
  "igrf2015_dipole date = Some ([[0], [- 29442, - 1501]], [[0], [0, 4797.1]])"


section \<open>Rotation of a local field vector (coordinate.py)\<close>

lemma rot_poly:
  fixes n e d sa ca sb cb :: real
  shows "(- sb * ca * n + - sa * e + - cb * ca * d)\<^sup>2
       + (- sb * sa * n + ca * e + - cb * sa * d)\<^sup>2
       + (cb * n + - sb * d)\<^sup>2
       = (sa\<^sup>2 + ca\<^sup>2) * ((sb * n + cb * d)\<^sup>2 + e\<^sup>2) + (cb * n - sb * d)\<^sup>2"
  by (simp add: power2_eq_square algebra_simps)

lemma rot_poly2:
  fixes n d sb cb :: real
  shows "(sb * n + cb * d)\<^sup>2 + (cb * n - sb * d)\<^sup>2 = (sb\<^sup>2 + cb\<^sup>2) * (n\<^sup>2 + d\<^sup>2)"
  by (simp add: power2_eq_square algebra_simps)

lemma rot_norm_sq:
  fixes n e d a b :: real
  shows "(- sin b * cos a * n + - sin a * e + - cos b * cos a * d)\<^sup>2
       + (- sin b * sin a * n + cos a * e + - cos b * sin a * d)\<^sup>2
       + (cos b * n + - sin b * d)\<^sup>2 = n\<^sup>2 + e\<^sup>2 + d\<^sup>2"
proof -
  have "(- sin b * cos a * n + - sin a * e + - cos b * cos a * d)\<^sup>2
       + (- sin b * sin a * n + cos a * e + - cos b * sin a * d)\<^sup>2
       + (cos b * n + - sin b * d)\<^sup>2
      = ((sin a)\<^sup>2 + (cos a)\<^sup>2) * ((sin b * n + cos b * d)\<^sup>2 + e\<^sup>2)
        + (cos b * n - sin b * d)\<^sup>2"
    by (rule rot_poly)
  also have "\<dots> = ((sin b * n + cos b * d)\<^sup>2 + (cos b * n - sin b * d)\<^sup>2) + e\<^sup>2"
    by simp
  also have "\<dots> = ((sin b)\<^sup>2 + (cos b)\<^sup>2) * (n\<^sup>2 + d\<^sup>2) + e\<^sup>2"
    by (simp only: rot_poly2)
  finally show ?thesis by simp
qed

lemma rotateVector_eq:
  "rotateVector [n, e, d] a b =
     Some [- sin b * cos a * n + - sin a * e + - cos b * cos a * d,
           - sin b * sin a * n + cos a * e + - cos b * sin a * d,
           cos b * n + - sin b * d]"
  by (simp add: rotateVector_def spanMat_def np_dot_def Let_def)

lemma orth_diag:
  fixes sa ca sb cb :: real
  assumes "sa * sa + ca * ca = 1" "sb * sb + cb * cb = 1"
  shows "sb * ca * (sb * ca) + (sb * sa * (sb * sa) + cb * cb) = 1"
  using assms by algebra

lemma orth_off:
  fixes sa ca sb cb :: real
  assumes "sa * sa + ca * ca = 1"
  shows "sb * ca * (cb * ca) + (sb * sa * (cb * sa) - cb * sb) = 0"
  using assms by algebra

lemma spanMat_orthogonal: "gram (spanMat alpha beta) = [[1, 0, 0], [0, 1, 0], [0, 0, 1]]"
proof -
  have a: "sin alpha * sin alpha + cos alpha * cos alpha = 1"
    using sin_cos_squared_add [of alpha] by (simp add: power2_eq_square)
  have b: "sin beta * sin beta + cos beta * cos beta = 1"
    using sin_cos_squared_add [of beta] by (simp add: power2_eq_square)
  have b': "cos beta * cos beta + sin beta * sin beta = 1"
    using b by simp
  show ?thesis
    unfolding gram_def spanMat_def Let_def
    apply simp
    apply (intro conjI)
    subgoal by (rule orth_diag [OF a b])
    subgoal by (rule orth_off [OF a])
    subgoal by (rule a)
    subgoal by (rule orth_off [OF a])
    subgoal by (rule orth_diag [OF a b'])
    done
qed

text \<open>
  Claim C10. For every input vector \<open>[north, east, down]\<close> and all angles \<open>alpha\<close> and
  \<open>beta\<close>, the matrix \<open>rotateVector\<close> applies is orthogonal (its columns are
  orthonormal), \<open>rotateVector\<close> returns a vector of three components, and the Euclidean
  norm of that vector is the Euclidean norm of the input vector.
\<close>

theorem rotateVector_preserves_norm:
  "gram (spanMat alpha beta) = [[1, 0, 0], [0, 1, 0], [0, 0, 1]]
   \<and> (\<exists>x y z. rotateVector [north, east, down] alpha beta = Some [x, y, z]
         \<and> norm_vec [x, y, z] = norm_vec [north, east, down])"
proof -
  have "norm_vec [- sin beta * cos alpha * north + - sin alpha * east + - cos beta * cos alpha * down,
           - sin beta * sin alpha * north + cos alpha * east + - cos beta * sin alpha * down,
           cos beta * north + - sin beta * down] = norm_vec [north, east, down]"
    using rot_norm_sq [of beta alpha north east down] by (simp add: norm_vec_def)
  then show ?thesis
    using rotateVector_eq [of north east down alpha beta] spanMat_orthogonal by simp
qed

section \<open>Totality of the synthesis (IGRF12.py)\<close>

lemma py_get_in: "0 \<le> i \<Longrightarrow> i < int (length xs) \<Longrightarrow> py_get xs i = Some (xs ! nat i)"
  by (simp add: py_get_def py_index_def)

lemma py_set_in: "0 \<le> i \<Longrightarrow> i < int (length xs) \<Longrightarrow> py_set xs i v = Some (xs[nat i := v])"
  by (simp add: py_set_def py_index_def)

lemma fdiv_Some: "b \<noteq> 0 \<Longrightarrow> fdiv a b = Some (a / b)"
  by (simp add: fdiv_def)

lemma sq_diff_pos:
  fixes m n :: int
  assumes "1 \<le> m" "m < n"
  shows "sqrt (real_of_int (n * n - m * m)) \<noteq> 0"
proof -
  have "m * m < n * n" using assms by (intro mult_strict_mono) auto
  then have "0 < n * n - m * m" by simp
  then have "0 < real_of_int (n * n - m * m)" by (simp only: of_int_0_less_iff)
  then show ?thesis by (simp only: real_sqrt_eq_zero_cancel_iff)
qed

lemma legendre_step_total:
  assumes sh: "shape s"
    and mn: "s_m s \<le> s_n s" and m1: "1 \<le> s_m s"
    and k: "1 \<le> k" "k \<le> 105"
    and ns: "s_m s \<noteq> s_n s \<Longrightarrow> 0 \<le> k - s_n s - 1 \<and> 0 \<le> k - 2 * s_n s"
    and sec: "s_m s = s_n s \<Longrightarrow> k \<noteq> 3 \<Longrightarrow> 2 \<le> s_m s \<and> s_m s \<le> 13 \<and> 0 \<le> k - s_n s - 2"
  shows "\<exists>s'. legendre_step ct st k s = Some s' \<and> shape s'
            \<and> s_l s' = s_l s \<and> s_m s' = s_m s \<and> s_n s' = s_n s"
proof -
  have len: "length (s_p s) = 105" "length (s_q s) = 105" "length (s_cl s) = 13" "length (s_sl s) = 13"
    using sh by (simp_all add: shape_def)
  have n1: "1 \<le> s_n s" using mn m1 by simp
  then have fg: "s_fn s = Some (s_n s)" "s_gn s = Some (s_n s - 1)"
    using sh by (simp_all add: shape_def)
  show ?thesis
  proof (cases "s_m s \<noteq> s_n s")
    case True
    then have lt: "s_m s < s_n s" using mn by simp
    have nz: "sqrt (real_of_int (s_n s * s_n s - s_m s * s_m s)) \<noteq> 0"
      using sq_diff_pos [OF m1 lt] .
    have i: "0 \<le> k - s_n s - 1" "0 \<le> k - 2 * s_n s" using ns True by simp_all
    have j: "k - s_n s - s_n s + 1 - 1 = k - 2 * s_n s" by simp
    show ?thesis
      using True fg nz i k n1 len sh
      by (simp add: legendre_step_def Let_def fdiv_Some py_get_in py_set_in j shape_def)
  next
    case False
    then have eq: "s_m s = s_n s" by simp
    show ?thesis
    proof (cases "k = 3")
      case True
      then show ?thesis using eq sh by (simp add: legendre_step_def Let_def)
    next
      case k3: False
      have c: "2 \<le> s_m s" "s_m s \<le> 13" "0 \<le> k - s_n s - 2" using sec [OF eq k3] by simp_all
      have nz: "real_of_int (s_m s) \<noteq> 0" using m1 by simp
      show ?thesis
        using eq k3 c nz k len sh n1
        by (simp add: legendre_step_def Let_def fdiv_Some py_get_in py_set_in shape_def)
    qed
  qed
qed

lemma py_int_nonneg: "0 \<le> x \<Longrightarrow> py_int x = \<lfloor>x\<rfloor>"
  by (simp add: py_int_def)

lemma gh_coeff_total:
  assumes "0 \<le> ll" "1 \<le> l" "0 \<le> nc" "\<lfloor>ll\<rfloor> + l + nc < int (length gh)" "d = 0 \<or> d = 1"
  shows "\<exists>c. gh_coeff gh tc t (ll + real_of_int l) nc d = Some c"
proof -
  have a: "py_int (ll + real_of_int l) = \<lfloor>ll\<rfloor> + l"
    using assms by (simp add: py_int_nonneg)
  have "0 \<le> ll + real_of_int l + real_of_int nc" using assms by simp
  then have b: "py_int (ll + real_of_int l + real_of_int nc) = \<lfloor>ll\<rfloor> + l + nc"
    by (simp add: py_int_nonneg add.assoc)
  have f: "0 \<le> \<lfloor>ll\<rfloor>" using assms by simp
  have i1: "0 \<le> \<lfloor>ll\<rfloor> + l - d" "\<lfloor>ll\<rfloor> + l - d < int (length gh)"
    using assms(2-5) f by linarith+
  have i2: "0 \<le> \<lfloor>ll\<rfloor> + l + nc - d" "\<lfloor>ll\<rfloor> + l + nc - d < int (length gh)"
    using assms(2-5) f by linarith+
  show ?thesis
    by (simp add: gh_coeff_def a b py_get_in [OF i1] py_get_in [OF i2])
qed

lemma east_increment_total: "\<exists>v. east_increment st ct one two clm slm fm pk qk = Some v"
  by (simp add: east_increment_def fdiv_def)

lemma synth_step_total:
  assumes sh: "shape s"
    and m: "1 \<le> s_m s" "s_m s \<le> 13" and n: "1 \<le> s_n s"
    and k: "1 \<le> k" "k \<le> 105"
    and l: "1 \<le> s_l s"
    and e: "0 \<le> e_ll e" "0 \<le> e_nc e" "\<lfloor>e_ll e\<rfloor> + s_l s + e_nc e < int (length gh)"
  shows "\<exists>s'. synth_step gh e ct st k s = Some s' \<and> shape s'
            \<and> s_l s' = s_l s + 2 \<and> s_m s' = s_m s + 1 \<and> s_n s' = s_n s"
proof -
  have len: "length (s_p s) = 105" "length (s_q s) = 105" "length (s_cl s) = 13" "length (s_sl s) = 13"
    using sh by (simp_all add: shape_def)
  have fg: "s_fn s = Some (s_n s)" using sh n by (simp add: shape_def)
  obtain c1 where c1: "gh_coeff gh (e_tc e) (e_t e) (e_ll e + real_of_int (s_l s)) (e_nc e) 1 = Some c1"
    using gh_coeff_total [OF e(1) l e(2) e(3), of 1] by auto
  obtain c0 where c0: "gh_coeff gh (e_tc e) (e_t e) (e_ll e + real_of_int (s_l s)) (e_nc e) 0 = Some c0"
    using gh_coeff_total [OF e(1) l e(2) e(3), of 0] by auto
  obtain v where v: "east_increment st ct (c1 * s_rr s) (c0 * s_rr s)
       (s_cl s ! nat (s_m s - 1)) (s_sl s ! nat (s_m s - 1)) (real_of_int (s_m s))
       (s_p s ! nat (k - 1)) (s_q s ! nat (k - 1)) = Some v"
    using east_increment_total by blast
  have m0: "s_m s \<noteq> 0" using m by simp
  show ?thesis
    using m0 m k len fg c1 c0 v sh
    by (simp add: synth_step_def Let_def py_get_in shape_def)
qed

lemma syn_step_total:
  assumes ok: "step_ok lmax k (s_l s, s_m s, s_n s)" and sh: "shape s"
    and e: "0 \<le> e_ll e" "0 \<le> e_nc e" "\<lfloor>e_ll e\<rfloor> + lmax + e_nc e < int (length gh)"
  shows "\<exists>s'. syn_step gh e ct st ratio k s = Some s' \<and> shape s'
            \<and> (s_l s', s_m s', s_n s') = ctrl_next (s_l s, s_m s, s_n s)"
proof (cases "s_m s \<le> s_n s")
  case True
  have c: "1 \<le> s_m s" "s_m s \<le> 13" "1 \<le> s_l s" "s_l s \<le> lmax" "1 \<le> k" "k \<le> 105"
    using ok True by simp_all
  have ns: "s_m s \<noteq> s_n s \<Longrightarrow> 0 \<le> k - s_n s - 1 \<and> 0 \<le> k - 2 * s_n s"
    using ok True by simp
  have sec: "s_m s = s_n s \<Longrightarrow> k \<noteq> 3 \<Longrightarrow> 2 \<le> s_m s \<and> s_m s \<le> 13 \<and> 0 \<le> k - s_n s - 2"
    using ok True by simp
  obtain s1 where s1: "legendre_step ct st k s = Some s1" "shape s1"
      "s_l s1 = s_l s" "s_m s1 = s_m s" "s_n s1 = s_n s"
    using legendre_step_total [OF sh True c(1) c(5) c(6) ns sec] by blast
  have b: "\<lfloor>e_ll e\<rfloor> + s_l s1 + e_nc e < int (length gh)" using e(3) c(4) s1(3) by simp
  have n1: "1 \<le> s_n s1" using True c(1) s1 by simp
  obtain s2 where s2: "synth_step gh e ct st k s1 = Some s2" "shape s2"
      "s_l s2 = s_l s1 + 2" "s_m s2 = s_m s1 + 1" "s_n s2 = s_n s1"
    using synth_step_total [OF s1(2) _ _ n1 c(5) c(6) _ e(1) e(2) b] c s1 by auto
  show ?thesis using True s1 s2 by (simp add: syn_step_def)
next
  case False
  have "0 \<le> s_n s" using ok False by simp
  then show ?thesis using False sh by (simp add: syn_step_def Let_def shape_def)
qed

lemma syn_loop_total:
  assumes "ctrl_ok lmax ks (s_l s, s_m s, s_n s)" "shape s"
    and e: "0 \<le> e_ll e" "0 \<le> e_nc e" "\<lfloor>e_ll e\<rfloor> + lmax + e_nc e < int (length gh)"
  shows "\<exists>s'. syn_loop (syn_step gh e ct st ratio) ks s = Some s'"
  using assms(1,2)
proof (induction ks arbitrary: s)
  case Nil
  then show ?case by simp
next
  case (Cons k ks)
  from Cons.prems(1) have ok: "step_ok lmax k (s_l s, s_m s, s_n s)"
    and rest: "ctrl_ok lmax ks (ctrl_next (s_l s, s_m s, s_n s))"
    by (simp_all only: ctrl_ok.simps)
  obtain s1 where s1: "syn_step gh e ct st ratio k s = Some s1" "shape s1"
      "(s_l s1, s_m s1, s_n s1) = ctrl_next (s_l s, s_m s, s_n s)"
    using syn_step_total [OF ok Cons.prems(2) e] by blast
  have "ctrl_ok lmax ks (s_l s1, s_m s1, s_n s1)" using rest s1(3) by simp
  from Cons.IH [OF this s1(2)] show ?case using s1(1) by simp
qed

lemma geodetic_reduction_total:
  assumes alt: "0 \<le> alt" and u: "st * st + ct * ct = 1"
  shows "\<exists>r cd sd ct' st'. geodetic_reduction ct st alt = Some (r, cd, sd, ct', st') \<and> r \<noteq> 0"
proof -
  define a2 :: real where "a2 = 406806316 / 10"
  define b2 :: real where "b2 = 40408296"
  define three where "three = a2 * st * st + b2 * ct * ct"
  define w where "w = (a2 * (a2 * st * st) + b2 * (b2 * ct * ct)) / three"
  define r where "r = sqrt (alt * (alt + 2 * sqrt three) + w)"
  have ab: "0 < b2" "b2 \<le> a2" by (simp_all add: a2_def b2_def)
  have s0: "0 \<le> st * st" "0 \<le> ct * ct" by simp_all
  have "b2 * (st * st + ct * ct) \<le> a2 * (st * st) + b2 * (ct * ct)"
    using ab s0 by (simp add: algebra_simps mult_right_mono)
  then have "b2 \<le> three" using u by (simp add: three_def mult.assoc)
  then have three_pos: "0 < three" using ab by linarith
  have "b2 * b2 * (st * st + ct * ct) \<le> a2 * a2 * (st * st) + b2 * b2 * (ct * ct)"
  proof -
    have "b2 * b2 \<le> a2 * a2" using ab by (intro mult_mono) auto
    then have "b2 * b2 * (st * st) \<le> a2 * a2 * (st * st)" using s0 by (intro mult_right_mono)
    then show ?thesis by (simp add: algebra_simps)
  qed
  then have "b2 * b2 \<le> a2 * (a2 * st * st) + b2 * (b2 * ct * ct)"
    using u by (simp add: mult.assoc)
  moreover have "0 < b2 * b2" using ab by simp
  ultimately have "0 < a2 * (a2 * st * st) + b2 * (b2 * ct * ct)" by linarith
  then have w_pos: "0 < w" using three_pos by (simp add: w_def)
  have "0 \<le> alt * (alt + 2 * sqrt three)" using alt three_pos by simp
  then have r_pos: "0 < r" using w_pos by (simp add: r_def)
  have rho: "sqrt three \<noteq> 0" using three_pos by simp
  have t0: "three \<noteq> 0" using three_pos by simp
  have r0: "r \<noteq> 0" using r_pos by simp
  show ?thesis
    using rho t0 r0
    unfolding geodetic_reduction_def Let_def r_def w_def three_def a2_def b2_def
    by (simp add: fdiv_Some)
qed

lemma synthesis_total_aux:
  assumes ok: "ctrl_ok lmax [2 .. py_int (e_kmx e) - 1] (1, 1, 0)"
    and e: "0 \<le> e_ll e" "0 \<le> e_nc e" "\<lfloor>e_ll e\<rfloor> + lmax + e_nc e < int (length gh)"
    and geod: "itype = 1 \<Longrightarrow> 0 \<le> alt" and geoc: "itype \<noteq> 1 \<Longrightarrow> alt \<noteq> 0"
  shows "\<exists>x y z. synthesis gh e itype alt colat elong = Some (x, y, z, sqrt (x * x + y * y + z * z))"
proof -
  define ct0 where "ct0 = cos (colat / FACT)"
  define st0 where "st0 = sin (colat / FACT)"
  have u: "st0 * st0 + ct0 * ct0 = 1"
    using sin_cos_squared_add [of "colat / FACT"] by (simp add: st0_def ct0_def power2_eq_square)
  obtain r cd sd ct st where red:
    "(if itype = 1 then geodetic_reduction ct0 st0 alt else Some (alt, 1, 0, ct0, st0))
       = Some (r, cd, sd, ct, st)" and r0: "r \<noteq> 0"
  proof (cases "itype = 1")
    case True
    then show ?thesis using geodetic_reduction_total [OF geod u] that by auto
  next
    case False
    then show ?thesis using geoc that by auto
  qed
  define s0 where "s0 = \<lparr>s_l = 1, s_m = 1, s_n = 0, s_fn = None, s_gn = None,
       s_rr = 6371.2 / r * (6371.2 / r), s_x = 0, s_y = 0, s_z = 0,
       s_p = (replicate 105 0)[0 := 1, 2 := st], s_q = (replicate 105 0)[0 := 0, 2 := ct],
       s_cl = (replicate 13 0)[0 := cos (elong / FACT)], s_sl = (replicate 13 0)[0 := sin (elong / FACT)]\<rparr>"
  have sh: "shape s0" by (simp add: shape_def s0_def)
  have c0: "ctrl_ok lmax [2 .. py_int (e_kmx e) - 1] (s_l s0, s_m s0, s_n s0)"
    using ok by (simp add: s0_def)
  obtain s' where loop: "syn_loop (syn_step gh e ct st (6371.2 / r)) [2 .. py_int (e_kmx e) - 1] s0 = Some s'"
    using syn_loop_total [OF c0 sh e] by blast
  show ?thesis
    using red r0 loop
    unfolding synthesis_def Let_def ct0_def st0_def s0_def
    by (simp add: py_set_in fdiv_Some)
qed

lemma zero_line_values: "those (map zero_float (drop 3 (py_split zero_line))) = Some (replicate 25 0)"
  by code_simp
lemma zero_line_marked: "(take 2 zero_line = ''g '' \<or> take 2 zero_line = ''h '') = True"
  by code_simp
lemma those_replicate: "those (replicate n (Some x)) = Some (replicate n x)"
  by (induction n) simp_all
lemma zero_rows: "coeff_rows zero_float (replicate 195 zero_line) = Some (replicate 195 (replicate 25 0))"
  using zero_line_values zero_line_marked by (simp add: coeff_rows_def those_replicate)
lemma zero_transpose: "np_transpose (replicate 195 (replicate 25 (0::real))) = Some (replicate 25 (replicate 195 0))"
proof -
  have "transpose (replicate 195 (replicate 25 (0::real)))
          = map (\<lambda>i. map (\<lambda>j. replicate 195 (replicate 25 (0::real)) ! j ! i) [0..<length (replicate 195 (replicate 25 (0::real)))]) [0..<25]"
    by (rule transpose_rectangle) simp_all
  also have "\<dots> = replicate 25 (replicate 195 0)"
    by (auto intro!: nth_equalityI)
  finally show ?thesis by (simp add: np_transpose_def list_all_iff)
qed
lemma zero_flatten: "flatten_cols 0 (replicate 25 (replicate 195 (0::real))) = Some (replicate 3450 0)"
  by code_simp
lemma load_zero:
  "loadCoeffs zero_float zero_file ''igrf12coeffs.txt''
     = ([Opened ''igrf12coeffs.txt'', Printed (TableLength 3451)], Some (replicate 3450 0 @ [0]))"
  by (simp add: loadCoeffs_def zero_file_def zero_rows zero_transpose zero_flatten)

lemma ctrl_ok_10: "ctrl_ok 107 [2..65] (1, 1, 0)"
  by code_simp

lemma ctrl_ok_13: "ctrl_ok 179 [2..104] (1, 1, 0)"
  by code_simp

lemma resolve_epoch_bounds:
  assumes d: "1900 \<le> date" "date \<le> 2025" and g: "3435 \<le> length gh"
  shows "\<exists>lmax. ctrl_ok lmax [2 .. py_int (e_kmx (resolve_epoch isv date)) - 1] (1, 1, 0)
          \<and> 0 \<le> e_ll (resolve_epoch isv date) \<and> 0 \<le> e_nc (resolve_epoch isv date)
          \<and> \<lfloor>e_ll (resolve_epoch isv date)\<rfloor> + lmax + e_nc (resolve_epoch isv date) < int (length gh)"
proof -
  define e where "e = resolve_epoch isv date"
  have len: "3435 \<le> int (length gh)" using g by simp
  consider (a) "date < 1995" | (b) "1995 \<le> date" "date < 2015" | (c) "2015 \<le> date" by linarith
  then have "\<exists>lmax. ctrl_ok lmax [2 .. py_int (e_kmx e) - 1] (1, 1, 0)
          \<and> 0 \<le> e_ll e \<and> 0 \<le> e_nc e \<and> \<lfloor>e_ll e\<rfloor> + lmax + e_nc e < int (length gh)"
  proof cases
    case a
    have ll: "e_ll e = 24 * (date - 1900)" and nc: "e_nc e = 120" and kmx: "e_kmx e = 66"
      using a by (simp_all add: e_def resolve_epoch_def Let_def split: if_splits)
    have nn: "0 \<le> e_ll e" using d by (simp add: ll)
    have "e_ll e < 2280" using a by (simp add: ll)
    then have "\<lfloor>e_ll e\<rfloor> < 2280" by (subst floor_less_iff) simp
    then have fl: "\<lfloor>e_ll e\<rfloor> + 107 + e_nc e < int (length gh)" using len nc by linarith
    have ks: "[2 .. py_int (e_kmx e) - 1] = [2..65]" by (simp add: kmx py_int_def)
    show ?thesis
      using ctrl_ok_10 nn fl nc unfolding ks by (intro exI [of _ 107]) simp
  next
    case b
    have nc: "e_nc e = 195" and kmx: "e_kmx e = 105"
      using b by (simp_all add: e_def resolve_epoch_def Let_def split: if_splits)
    have "e_ll e = 120 * 19 + 195 * (0.2 * (date - 1995))"
      using b by (simp add: e_def resolve_epoch_def Let_def)
    also have "\<dots> = 2280 + 39 * (date - 1995)" by (simp add: field_simps)
    finally have ll: "e_ll e = 2280 + 39 * (date - 1995)" .
    have nn: "0 \<le> e_ll e" using b by (simp add: ll)
    have "e_ll e < 3060" using b by (simp add: ll)
    then have "\<lfloor>e_ll e\<rfloor> < 3060" by (subst floor_less_iff) simp
    then have fl: "\<lfloor>e_ll e\<rfloor> + 179 + e_nc e < int (length gh)" using len nc by linarith
    have ks: "[2 .. py_int (e_kmx e) - 1] = [2..104]" by (simp add: kmx py_int_def)
    show ?thesis
      using ctrl_ok_13 nn fl nc unfolding ks by (intro exI [of _ 179]) simp
  next
    case c
    have ll: "e_ll e = 3060" and nc: "e_nc e = 195" and kmx: "e_kmx e = 105"
      using c by (simp_all add: e_def resolve_epoch_def Let_def split: if_splits)
    have nn: "0 \<le> e_ll e" by (simp add: ll)
    have "\<lfloor>e_ll e\<rfloor> = 3060" by (simp add: ll)
    then have fl: "\<lfloor>e_ll e\<rfloor> + 179 + e_nc e < int (length gh)" using len nc by linarith
    have ks: "[2 .. py_int (e_kmx e) - 1] = [2..104]" by (simp add: kmx py_int_def)
    show ?thesis
      using ctrl_ok_13 nn fl nc unfolding ks by (intro exI [of _ 179]) simp
  qed
  then show ?thesis unfolding e_def .
qed

lemma synthesis_total:
  assumes d: "1900 \<le> date" "date \<le> 2025" and g: "3435 \<le> length gh"
    and geod: "itype = 1 \<Longrightarrow> 0 \<le> alt" and geoc: "itype \<noteq> 1 \<Longrightarrow> alt \<noteq> 0"
  shows "\<exists>x y z. synthesis gh (resolve_epoch isv date) itype alt colat elong
           = Some (x, y, z, sqrt (x * x + y * y + z * z))"
proof -
  obtain lmax where "ctrl_ok lmax [2 .. py_int (e_kmx (resolve_epoch isv date)) - 1] (1, 1, 0)"
    "0 \<le> e_ll (resolve_epoch isv date)" "0 \<le> e_nc (resolve_epoch isv date)"
    "\<lfloor>e_ll (resolve_epoch isv date)\<rfloor> + lmax + e_nc (resolve_epoch isv date) < int (length gh)"
    using resolve_epoch_bounds [OF d g] by blast
  then show ?thesis using geod geoc by (rule synthesis_total_aux)
qed

section \<open>Properties of igrf12syn\<close>

lemma loadCoeffs_events:
  "loadCoeffs pyfloat fs name = (evs, Some gh) \<Longrightarrow> evs = [Opened name, Printed (TableLength (length gh))]"
  by (auto simp add: loadCoeffs_def Let_def split: option.splits)

lemma loadCoeffs_fst:
  "fst (loadCoeffs pyfloat fs name) = [Opened name] \<or>
   (\<exists>n. fst (loadCoeffs pyfloat fs name) = [Opened name, Printed (TableLength n)])"
  by (auto simp add: loadCoeffs_def Let_def split: option.splits)

lemma igrf12syn_loaded:
  "loadCoeffs pyfloat fs ''igrf12coeffs.txt'' = (evs, Some gh) \<Longrightarrow>
   igrf12syn pyfloat fs isv date itype alt colat elong
     = (evs @ fst (igrf12syn_body gh isv date itype alt colat elong),
        snd (igrf12syn_body gh isv date itype alt colat elong))"
  by (simp add: igrf12syn_def split: prod.splits)


lemma body_out_of_range:
  "date < 1900 \<or> date > 2025 \<Longrightarrow>
   igrf12syn_body gh isv date itype alt colat elong
     = ([Printed (WillNotWork date), Printed DateMustBeInRange, Printed OnReturn], Some (0, 0, 0, 1))"
  by (simp add: igrf12syn_body_def Let_def)

lemma body_in_range:
  "1900 \<le> date \<Longrightarrow> date \<le> 2025 \<Longrightarrow>
   igrf12syn_body gh isv date itype alt colat elong
     = (if 2020 < date then [Printed IntendedUpTo2020, Printed (ReducedAccuracy date)] else [],
        synthesis gh (resolve_epoch isv date) itype alt colat elong)"
  by (auto simp add: igrf12syn_body_def Let_def)

lemma synthesis_norm:
  "synthesis gh e itype alt colat elong = Some (x, y, z, f) \<Longrightarrow> f = sqrt (x * x + y * y + z * z)"
  by (auto simp add: synthesis_def Let_def bind_eq_Some_conv split: prod.splits)


text \<open>
  Claim C3. Once the table is loaded: for a date below 1900 or above 2025, in either mode and
  for any coordinate system, altitude, colatitude and longitude, \<open>igrf12syn\<close> prints its
  three lines and returns \<open>x = y = z = 0\<close> with \<open>f = 1\<close>. For a date from 1900 to 2025
  that branch is not taken (its line is not printed), the result is the synthesis, and
  the synthesis returns a value when the table has its 3435 entries and the altitude is
  in the documented domain (not below sea level when geodetic, not zero when geocentric).
\<close>

theorem igrf12syn_epoch_range:
  assumes load: "loadCoeffs pyfloat fs ''igrf12coeffs.txt'' = (evs, Some gh)"
  shows "(date < 1900 \<or> date > 2025 \<longrightarrow>
            igrf12syn pyfloat fs isv date itype alt colat elong
              = (evs @ [Printed (WillNotWork date), Printed DateMustBeInRange, Printed OnReturn],
                 Some (0, 0, 0, 1)))
       \<and> (1900 \<le> date \<and> date \<le> 2025 \<longrightarrow>
            Printed (WillNotWork date) \<notin> set (fst (igrf12syn pyfloat fs isv date itype alt colat elong))
            \<and> snd (igrf12syn pyfloat fs isv date itype alt colat elong)
                = synthesis gh (resolve_epoch isv date) itype alt colat elong
            \<and> (3435 \<le> length gh \<and> (itype = 1 \<longrightarrow> 0 \<le> alt) \<and> (itype \<noteq> 1 \<longrightarrow> alt \<noteq> 0) \<longrightarrow>
                 (\<exists>x y z f. snd (igrf12syn pyfloat fs isv date itype alt colat elong) = Some (x, y, z, f))))"
proof (intro conjI impI)
  assume "date < 1900 \<or> date > 2025"
  then show "igrf12syn pyfloat fs isv date itype alt colat elong
              = (evs @ [Printed (WillNotWork date), Printed DateMustBeInRange, Printed OnReturn],
                 Some (0, 0, 0, 1))"
    by (simp add: igrf12syn_loaded [OF load] body_out_of_range)
next
  assume d: "1900 \<le> date \<and> date \<le> 2025"
  show "Printed (WillNotWork date) \<notin> set (fst (igrf12syn pyfloat fs isv date itype alt colat elong))"
    using d loadCoeffs_events [OF load] by (simp add: igrf12syn_loaded [OF load] body_in_range)
  show s: "snd (igrf12syn pyfloat fs isv date itype alt colat elong)
                = synthesis gh (resolve_epoch isv date) itype alt colat elong"
    using d by (simp add: igrf12syn_loaded [OF load] body_in_range)
  assume "3435 \<le> length gh \<and> (itype = 1 \<longrightarrow> 0 \<le> alt) \<and> (itype \<noteq> 1 \<longrightarrow> alt \<noteq> 0)"
  then show "\<exists>x y z f. snd (igrf12syn pyfloat fs isv date itype alt colat elong) = Some (x, y, z, f)"
    using synthesis_total [of date gh itype alt isv colat elong] d unfolding s by blast
qed

theorem igrf12syn_epoch_range_witness:
  "igrf12syn zero_float zero_file 0 1800 2 6371.2 45 0
     = ([Opened ''igrf12coeffs.txt'', Printed (TableLength 3451), Printed (WillNotWork 1800),
         Printed DateMustBeInRange, Printed OnReturn], Some (0, 0, 0, 1))
   \<and> Printed (WillNotWork 2005) \<notin> set (fst (igrf12syn zero_float zero_file 1 2005 1 300 40 116))
   \<and> (\<exists>x y z f. snd (igrf12syn zero_float zero_file 1 2005 1 300 40 116) = Some (x, y, z, f))"
proof -
  note out = igrf12syn_epoch_range [OF load_zero, of 1800 0 2 "6371.2" 45 0]
  note inr = igrf12syn_epoch_range [OF load_zero, of 2005 1 1 300 40 116]
  have o: "(1800::real) < 1900 \<or> (1800::real) > 2025" by simp
  have d: "(1900::real) \<le> 2005 \<and> (2005::real) \<le> 2025" by simp
  have g: "3435 \<le> length (replicate 3450 (0::real) @ [0])
           \<and> ((1::int) = 1 \<longrightarrow> (0::real) \<le> 300) \<and> ((1::int) \<noteq> 1 \<longrightarrow> (300::real) \<noteq> 0)"
    by simp
  have "igrf12syn zero_float zero_file 0 1800 2 6371.2 45 0
     = ([Opened ''igrf12coeffs.txt'', Printed (TableLength 3451)]
          @ [Printed (WillNotWork 1800), Printed DateMustBeInRange, Printed OnReturn],
        Some (0, 0, 0, 1))"
    using out o by blast
  then have 1: "igrf12syn zero_float zero_file 0 1800 2 6371.2 45 0
     = ([Opened ''igrf12coeffs.txt'', Printed (TableLength 3451), Printed (WillNotWork 1800),
         Printed DateMustBeInRange, Printed OnReturn], Some (0, 0, 0, 1))"
    by simp
  have 2: "Printed (WillNotWork 2005) \<notin> set (fst (igrf12syn zero_float zero_file 1 2005 1 300 40 116))"
    using inr d by blast
  have 3: "\<exists>x y z f. snd (igrf12syn zero_float zero_file 1 2005 1 300 40 116) = Some (x, y, z, f)"
    using inr d g by blast
  show ?thesis using 1 2 3 by (intro conjI)
qed

text \<open>
  Claim C5. For a date from 1900 to 2025, in either mode, whenever \<open>igrf12syn\<close> returns
  \<open>(x, y, z, f)\<close> the intensity \<open>f\<close> is \<open>sqrt (x * x + y * y + z * z)\<close> of the three
  returned components, the ones after the rotation back to the frame of the input; and
  it does return such a value on the documented domain.
\<close>

theorem igrf12syn_intensity_is_norm:
  assumes load: "loadCoeffs pyfloat fs ''igrf12coeffs.txt'' = (evs, Some gh)"
    and d: "1900 \<le> date" "date \<le> 2025"
  shows "(\<forall>x y z f. snd (igrf12syn pyfloat fs isv date itype alt colat elong) = Some (x, y, z, f)
            \<longrightarrow> f = sqrt (x * x + y * y + z * z))
       \<and> (3435 \<le> length gh \<and> (itype = 1 \<longrightarrow> 0 \<le> alt) \<and> (itype \<noteq> 1 \<longrightarrow> alt \<noteq> 0) \<longrightarrow>
            (\<exists>x y z. snd (igrf12syn pyfloat fs isv date itype alt colat elong)
                       = Some (x, y, z, sqrt (x * x + y * y + z * z))))"
proof -
  have s: "snd (igrf12syn pyfloat fs isv date itype alt colat elong)
             = synthesis gh (resolve_epoch isv date) itype alt colat elong"
    using d by (simp add: igrf12syn_loaded [OF load] body_in_range)
  show ?thesis
    unfolding s using synthesis_norm synthesis_total [OF d, of gh itype alt isv colat elong]
    by blast
qed

theorem igrf12syn_intensity_is_norm_witness:
  "(\<exists>x y z. snd (igrf12syn zero_float zero_file 0 2005 1 300 40 116)
              = Some (x, y, z, sqrt (x * x + y * y + z * z)))
   \<and> (\<exists>x y z. snd (igrf12syn zero_float zero_file 1 2005 2 6671.2 40 116)
              = Some (x, y, z, sqrt (x * x + y * y + z * z)))"
proof -
  have d: "(1900::real) \<le> 2005" "(2005::real) \<le> 2025" by simp_all
  note geod = igrf12syn_intensity_is_norm [OF load_zero d, of 0 1 300 40 116]
  note geoc = igrf12syn_intensity_is_norm [OF load_zero d, of 1 2 "6671.2" 40 116]
  have g1: "3435 \<le> length (replicate 3450 (0::real) @ [0])
           \<and> ((1::int) = 1 \<longrightarrow> (0::real) \<le> 300) \<and> ((1::int) \<noteq> 1 \<longrightarrow> (300::real) \<noteq> 0)"
    by simp
  have g2: "3435 \<le> length (replicate 3450 (0::real) @ [0])
           \<and> ((2::int) = 1 \<longrightarrow> (0::real) \<le> 6671.2) \<and> ((2::int) \<noteq> 1 \<longrightarrow> (6671.2::real) \<noteq> 0)"
    by simp
  show ?thesis using geod g1 geoc g2 by blast
qed

lemma synth_step_east:
  assumes "synth_step gh e ct st k s = Some s'"
  shows "\<exists>one two clm slm pk qk.
           east_increment st ct one two clm slm (real_of_int (s_m s)) pk qk = Some (s_y s' - s_y s)"
  using assms
  by (auto simp add: synth_step_def Let_def bind_eq_Some_conv split: if_splits; blast)

lemma syn_step_east:
  assumes "syn_step gh e ct st ratio k s = Some s'"
  shows "s_y s' = s_y s \<or> (\<exists>one two clm slm pk qk.
           east_increment st ct one two clm slm (real_of_int (s_m s)) pk qk = Some (s_y s' - s_y s))"
proof (cases "s_m s \<le> s_n s")
  case True
  then obtain s1 where a: "legendre_step ct st k s = Some s1" and b: "synth_step gh e ct st k s1 = Some s'"
    using assms by (auto simp add: syn_step_def bind_eq_Some_conv)
  have "s_m s1 = s_m s \<and> s_y s1 = s_y s"
    using a by (auto simp add: legendre_step_def Let_def bind_eq_Some_conv split: if_splits)
  then show ?thesis using synth_step_east [OF b] by simp
next
  case False
  then show ?thesis using assms by (auto simp add: syn_step_def Let_def)
qed

lemma demo_step:
  "map_option s_y (syn_step [2, 3, 5] demo_epoch 1 0 1 3 demo_state) = Some (- 3)"
  by (simp add: syn_step_def legendre_step_def synth_step_def gh_coeff_def east_increment_def
        demo_state_def demo_epoch_def py_get_def py_index_def py_int_def Let_def)

text \<open>
  Claim C7. What a term adds to the east component is the quotient by \<open>st\<close> only when
  \<open>st\<close> is not zero, and the product with \<open>ct\<close> when \<open>st = 0\<close>; it is never a failed
  division. Every change of \<open>y\<close> by an iteration of the loop is such an increment. On the
  documented domain the whole synthesis returns a value: no division by zero (and no
  index out of range) occurs.
\<close>

theorem east_increment_guarded:
  "east_increment st ct one two clm slm fm pk qk
     = Some (if st = 0 then (one * slm - two * clm) * qk * ct
             else (one * slm - two * clm) * fm * pk / st)
   \<and> (\<forall>s'. syn_step gh e ct st ratio k s = Some s' \<longrightarrow>
         s_y s' = s_y s \<or> (\<exists>one two clm slm pk qk.
           east_increment st ct one two clm slm (real_of_int (s_m s)) pk qk = Some (s_y s' - s_y s)))
   \<and> (1900 \<le> date \<and> date \<le> 2025 \<and> 3435 \<le> length gh
        \<and> (itype = 1 \<longrightarrow> 0 \<le> alt) \<and> (itype \<noteq> 1 \<longrightarrow> alt \<noteq> 0) \<longrightarrow>
       (\<exists>r. synthesis gh (resolve_epoch isv date) itype alt colat elong = Some r))"
proof (intro conjI allI impI)
  show "east_increment st ct one two clm slm fm pk qk
     = Some (if st = 0 then (one * slm - two * clm) * qk * ct
             else (one * slm - two * clm) * fm * pk / st)"
    by (simp add: east_increment_def fdiv_def)
next
  fix s' assume "syn_step gh e ct st ratio k s = Some s'"
  then show "s_y s' = s_y s \<or> (\<exists>one two clm slm pk qk.
           east_increment st ct one two clm slm (real_of_int (s_m s)) pk qk = Some (s_y s' - s_y s))"
    by (rule syn_step_east)
next
  assume "1900 \<le> date \<and> date \<le> 2025 \<and> 3435 \<le> length gh
        \<and> (itype = 1 \<longrightarrow> 0 \<le> alt) \<and> (itype \<noteq> 1 \<longrightarrow> alt \<noteq> 0)"
  then show "\<exists>r. synthesis gh (resolve_epoch isv date) itype alt colat elong = Some r"
    using synthesis_total [of date gh itype alt isv colat elong] by blast
qed

theorem east_increment_guarded_witness:
  "east_increment 0 1 2 3 1 0 1 1 1 = Some (- 3)
   \<and> east_increment (1 / 2) 1 2 3 1 0 1 1 1 = Some (- 6)
   \<and> (\<exists>one two clm slm pk qk. east_increment 0 1 one two clm slm 1 pk qk = Some (- 3))
   \<and> (\<exists>r. synthesis (replicate 3450 0 @ [0]) (resolve_epoch 0 2005) 1 300 40 116 = Some r)"
proof -
  have 1: "east_increment 0 1 2 3 1 0 1 1 1 = Some (- 3)"
    using east_increment_guarded [of 0 1 2 3 1 0 1 1 1] by simp
  have 2: "east_increment (1 / 2) 1 2 3 1 0 1 1 1 = Some (- 6)"
    using east_increment_guarded [of "1 / 2" 1 2 3 1 0 1 1 1] by simp
  obtain s' where s': "syn_step [2, 3, 5] demo_epoch 1 0 1 3 demo_state = Some s'" "s_y s' = - 3"
    using demo_step by auto
  have y0: "s_y demo_state = 0" "s_m demo_state = 1" by (simp_all add: demo_state_def)
  have "s_y s' = s_y demo_state \<or> (\<exists>one two clm slm pk qk.
           east_increment 0 1 one two clm slm (real_of_int (s_m demo_state)) pk qk
             = Some (s_y s' - s_y demo_state))"
    using east_increment_guarded [where st = 0 and ct = 1 and gh = "[2, 3, 5]" and e = demo_epoch
        and ratio = 1 and k = 3 and s = demo_state] s'(1)
    by blast
  then have 3: "\<exists>one two clm slm pk qk. east_increment 0 1 one two clm slm 1 pk qk = Some (- 3)"
    using s'(2) y0 by simp
  have d: "(1900::real) \<le> 2005 \<and> (2005::real) \<le> 2025 \<and> 3435 \<le> length (replicate 3450 (0::real) @ [0])
        \<and> ((1::int) = 1 \<longrightarrow> (0::real) \<le> 300) \<and> ((1::int) \<noteq> 1 \<longrightarrow> (300::real) \<noteq> 0)"
    by simp
  have 4: "\<exists>r. synthesis (replicate 3450 0 @ [0]) (resolve_epoch 0 2005) 1 300 40 116 = Some r"
    using east_increment_guarded [where date = 2005 and gh = "replicate 3450 0 @ [0]" and itype = 1
        and alt = 300 and isv = 0 and colat = 40 and elong = 116] d
    by blast
  show ?thesis using 1 2 3 4 by (intro conjI)
qed






text \<open>
  Claim C1, on the code. In field mode, for a date from 1900 up to 2015, the weights are
  \<open>t = 0\<close> and \<open>tc = 1\<close> whatever the date is, and the offset \<open>ll\<close> is not cut to a
  whole snapshot: line 593 keeps the float \<open>ll = t\<close> where the port in test.py takes
  \<open>int(t)\<close>. So each coefficient is one table entry, with no share of the later snapshot.
  At 1902.5 the first entry read is \<open>gh[60]\<close>, not the mean of \<open>gh[0]\<close> and \<open>gh[120]\<close>.
\<close>

theorem igrf12syn_weights_before_2015:
  assumes "1900 \<le> date" "date < 2015"
  shows "e_t (resolve_epoch 0 date) = 0 \<and> e_tc (resolve_epoch 0 date) = 1
       \<and> e_ll (resolve_epoch 0 date)
           = (if date < 1995 then 120 * (0.2 * (date - 1900))
              else 120 * 19 + 195 * (0.2 * (date - 1995)))
       \<and> gh_coeff gh (e_tc (resolve_epoch 0 date)) (e_t (resolve_epoch 0 date)) lm nc d
           = do { a \<leftarrow> py_get gh (py_int lm - d);
                  b \<leftarrow> py_get gh (py_int (lm + real_of_int nc) - d);
                  Some a }"
  using assms by (simp add: resolve_epoch_def Let_def gh_coeff_def)

theorem igrf12syn_weights_before_2015_witness:
  "e_t (resolve_epoch 0 1902.5) = 0 \<and> e_tc (resolve_epoch 0 1902.5) = 1
   \<and> e_ll (resolve_epoch 0 1902.5) = 60
   \<and> gh_coeff (map (\<lambda>i. real (i * i)) [0..<3451])
        (e_tc (resolve_epoch 0 1902.5)) (e_t (resolve_epoch 0 1902.5))
        (e_ll (resolve_epoch 0 1902.5) + 1) (e_nc (resolve_epoch 0 1902.5)) 1 = Some 3600"
proof -
  have d: "(1900::real) \<le> 1902.5" "(1902.5::real) < 2015" by simp_all
  note w = igrf12syn_weights_before_2015 [OF d,
      of "map (\<lambda>i. real (i * i)) [0..<3451]" "e_ll (resolve_epoch 0 1902.5) + 1"
         "e_nc (resolve_epoch 0 1902.5)" 1]
  have t: "e_t (resolve_epoch 0 1902.5) = 0" using w by blast
  have tc: "e_tc (resolve_epoch 0 1902.5) = 1" using w by blast
  have "e_ll (resolve_epoch 0 1902.5)
           = (if (1902.5::real) < 1995 then 120 * (0.2 * (1902.5 - 1900))
              else 120 * 19 + 195 * (0.2 * (1902.5 - 1995)))"
    using w by blast
  then have ll: "e_ll (resolve_epoch 0 1902.5) = 60" by simp
  have nc: "e_nc (resolve_epoch 0 1902.5) = 120" by (simp add: resolve_epoch_def Let_def)
  have "gh_coeff (map (\<lambda>i. real (i * i)) [0..<3451])
        (e_tc (resolve_epoch 0 1902.5)) (e_t (resolve_epoch 0 1902.5))
        (e_ll (resolve_epoch 0 1902.5) + 1) (e_nc (resolve_epoch 0 1902.5)) 1
      = do { a \<leftarrow> py_get (map (\<lambda>i. real (i * i)) [0..<3451])
                    (py_int (e_ll (resolve_epoch 0 1902.5) + 1) - 1);
             b \<leftarrow> py_get (map (\<lambda>i. real (i * i)) [0..<3451])
                    (py_int (e_ll (resolve_epoch 0 1902.5) + 1
                             + real_of_int (e_nc (resolve_epoch 0 1902.5))) - 1);
             Some a }"
    using w by blast
  also have "\<dots> = Some 3600"
    unfolding ll nc by (simp add: py_get_def py_index_def py_int_def)
  finally show ?thesis using t tc ll by (intro conjI)
qed

section \<open>Further properties of igrf12syn\<close>

lemma legendre_step_keeps_m:
  "legendre_step ct st k s = Some s' \<Longrightarrow> s_m s' = s_m s"
  by (auto simp add: legendre_step_def Let_def bind_eq_Some_conv split: if_splits)

lemma syn_step_order_positive:
  assumes "syn_step gh e ct st ratio k s = Some s'" "1 \<le> s_m s"
  shows "1 \<le> s_m s'"
proof (cases "s_m s \<le> s_n s")
  case True
  then obtain s1 where a: "legendre_step ct st k s = Some s1" and b: "synth_step gh e ct st k s1 = Some s'"
    using assms(1) by (auto simp add: syn_step_def bind_eq_Some_conv)
  have "1 \<le> s_m s1" using legendre_step_keeps_m [OF a] assms(2) by simp
  then show ?thesis
    using b by (auto simp add: synth_step_def Let_def bind_eq_Some_conv split: if_splits)
next
  case False
  then show ?thesis using assms(1) by (auto simp add: syn_step_def Let_def)
qed

text \<open>
  The order counter \<open>m\<close> of the loop over \<open>k\<close> starts at 1 and no iteration brings it
  below 1. So the block for \<open>m == 0\<close> (lines 674 to 678) never runs: no term of order 0
  is added to \<open>x\<close> and \<open>z\<close>, and \<open>l\<close> only ever grows by 2.
\<close>

theorem syn_loop_order_positive:
  assumes "syn_loop (syn_step gh e ct st ratio) ks s = Some s'" "1 \<le> s_m s"
  shows "1 \<le> s_m s'"
  using assms
proof (induction ks arbitrary: s)
  case Nil
  then show ?case by simp
next
  case (Cons k ks)
  then obtain s1 where a: "syn_step gh e ct st ratio k s = Some s1"
    and b: "syn_loop (syn_step gh e ct st ratio) ks s1 = Some s'"
    by (auto simp add: bind_eq_Some_conv)
  show ?case using Cons.IH [OF b syn_step_order_positive [OF a Cons.prems(2)]] .
qed

theorem syn_loop_order_positive_witness:
  "\<exists>s'. syn_loop (syn_step [2, 3, 5] demo_epoch 1 0 1) [3] demo_state = Some s' \<and> 1 \<le> s_m s'"
proof -
  obtain s' where s': "syn_step [2, 3, 5] demo_epoch 1 0 1 3 demo_state = Some s'"
    using demo_step by auto
  then have l: "syn_loop (syn_step [2, 3, 5] demo_epoch 1 0 1) [3] demo_state = Some s'" by simp
  have m: "1 \<le> s_m demo_state" by (simp add: demo_state_def)
  show ?thesis using l syn_loop_order_positive [OF l m] by blast
qed

text \<open>
  From 2015 on the table offset is 3060, the start of the 2015 snapshot, with degree 13.
  In field mode the weights are \<open>tc = 1\<close> on that snapshot and \<open>t = date - 2015\<close> on
  the secular variation snapshot after it; in secular variation mode they are 0 and 1.
\<close>

theorem resolve_epoch_from_2015:
  assumes "2015 \<le> date"
  shows "resolve_epoch isv date
           = \<lparr>e_t = (if isv = 1 then 1 else date - 2015), e_tc = (if isv = 1 then 0 else 1),
              e_ll = 3060, e_nmx = 13, e_nc = 195, e_kmx = 105\<rparr>"
  using assms by (simp add: resolve_epoch_def Let_def)

theorem resolve_epoch_from_2015_witness:
  "resolve_epoch 0 2017.5 = \<lparr>e_t = 2.5, e_tc = 1, e_ll = 3060, e_nmx = 13, e_nc = 195, e_kmx = 105\<rparr>
   \<and> resolve_epoch 1 2017.5 = \<lparr>e_t = 1, e_tc = 0, e_ll = 3060, e_nmx = 13, e_nc = 195, e_kmx = 105\<rparr>"
proof -
  have d: "(2015::real) \<le> 2017.5" by simp
  show ?thesis
    using resolve_epoch_from_2015 [OF d, of 0] resolve_epoch_from_2015 [OF d, of 1] by simp
qed

text \<open>
  For a date in range, \<open>igrf12syn\<close> prints, after the table length, the two lines about
  reduced accuracy exactly when the date is past 2020, and nothing else.
\<close>

theorem igrf12syn_reduced_accuracy_warning:
  assumes load: "loadCoeffs pyfloat fs ''igrf12coeffs.txt'' = (evs, Some gh)"
    and d: "1900 \<le> date" "date \<le> 2025"
  shows "fst (igrf12syn pyfloat fs isv date itype alt colat elong)
           = evs @ (if 2020 < date then [Printed IntendedUpTo2020, Printed (ReducedAccuracy date)] else [])"
  using d by (simp add: igrf12syn_loaded [OF load] body_in_range)

theorem igrf12syn_reduced_accuracy_warning_witness:
  "fst (igrf12syn zero_float zero_file 0 2022 2 6371.2 45 0)
     = [Opened ''igrf12coeffs.txt'', Printed (TableLength 3451), Printed IntendedUpTo2020,
        Printed (ReducedAccuracy 2022)]
   \<and> fst (igrf12syn zero_float zero_file 0 2005 2 6371.2 45 0)
     = [Opened ''igrf12coeffs.txt'', Printed (TableLength 3451)]"
proof -
  have a: "(1900::real) \<le> 2022" "(2022::real) \<le> 2025" by simp_all
  have b: "(1900::real) \<le> 2005" "(2005::real) \<le> 2025" by simp_all
  show ?thesis
    using igrf12syn_reduced_accuracy_warning [OF load_zero a, of 0 2 "6371.2" 45 0]
      igrf12syn_reduced_accuracy_warning [OF load_zero b, of 0 2 "6371.2" 45 0]
    by simp
qed

section \<open>Properties of northPole, itrace and findApex (apex.py)\<close>

lemma northPole_eq:
  assumes gc: "getCoeffs date = Some (g0 # (g10 # g11 # gr) # gs, h0 # (h10 # h11 # hr) # hs)"
    and nz: "g10\<^sup>2 + g11\<^sup>2 + h11\<^sup>2 \<noteq> 0"
  shows "northPole getCoeffs date
           = Some (arccos (g10 / sqrt (g10\<^sup>2 + g11\<^sup>2 + h11\<^sup>2)) * FACT - 90,
                   arctan2 h11 g11 * FACT - 180)"
proof -
  have "sqrt (g10\<^sup>2 + g11\<^sup>2 + h11\<^sup>2) \<noteq> 0" using nz by simp
  then show ?thesis
    using gc by (simp add: northPole_def py_get_def py_index_def fdiv_def Let_def)
qed

text \<open>
  Claim C4, as amended. With the degree 1 coefficients \<open>g10 = g[1][0]\<close>, \<open>g11 = g[1][1]\<close>
  and \<open>h11 = h[1][1]\<close> that \<open>getCoeffs\<close> gives for the date, not all zero, \<open>northPole\<close>
  returns, in degrees, the latitude \<open>colat - 90\<close> for
  \<open>colat = arccos (g10 / sqrt (g10\<^sup>2 + g11\<^sup>2 + h11\<^sup>2))\<close> and the longitude
  \<open>arctan2 h11 g11 - 180\<close>. Nothing else of the tables is read, and the result is a
  value: nothing is changed.
\<close>

theorem northPole_formula:
  assumes gc: "getCoeffs date = Some (g0 # (g10 # g11 # gr) # gs, h0 # (h10 # h11 # hr) # hs)"
    and nz: "g10\<^sup>2 + g11\<^sup>2 + h11\<^sup>2 \<noteq> 0"
  shows "northPole getCoeffs date
           = Some (arccos (g10 / sqrt (g10\<^sup>2 + g11\<^sup>2 + h11\<^sup>2)) * FACT - 90,
                   arctan2 h11 g11 * FACT - 180)"
  using gc nz by (rule northPole_eq)

theorem northPole_formula_witness:
  "northPole igrf2015_dipole 2015
     = Some (arccos (- 29442 / sqrt ((- 29442)\<^sup>2 + (- 1501)\<^sup>2 + 4797.1\<^sup>2)) * FACT - 90,
             arctan2 4797.1 (- 1501) * FACT - 180)"
proof -
  have gc: "igrf2015_dipole 2015 = Some ([0] # (- 29442 # - 1501 # []) # [], [0] # (0 # 4797.1 # []) # [])"
    by (simp add: igrf2015_dipole_def)
  have nz: "(- 29442 :: real)\<^sup>2 + (- 1501)\<^sup>2 + 4797.1\<^sup>2 \<noteq> 0" by (simp add: power2_eq_square)
  show ?thesis using northPole_formula [where getCoeffs = igrf2015_dipole and date = 2015, OF gc nz] .
qed

text \<open>The claim as stated fails: with the degree 1 coefficients of the 2015 model the
  result is not the pair \<open>90 - colat\<close> and \<open>arctan2 h11 g11\<close>.\<close>

theorem northPole_not_ninety_minus_colat:
  "northPole igrf2015_dipole 2015
     \<noteq> Some (90 - arccos (- 29442 / sqrt ((- 29442)\<^sup>2 + (- 1501)\<^sup>2 + 4797.1\<^sup>2)) * FACT,
             arctan2 4797.1 (- 1501) * FACT)"
proof -
  have gc: "igrf2015_dipole 2015 = Some ([0] # (- 29442 # - 1501 # []) # [], [0] # (0 # 4797.1 # []) # [])"
    by (simp add: igrf2015_dipole_def)
  have nz: "(- 29442 :: real)\<^sup>2 + (- 1501)\<^sup>2 + 4797.1\<^sup>2 \<noteq> 0" by (simp add: power2_eq_square)
  show ?thesis unfolding northPole_eq [where getCoeffs = igrf2015_dipole and date = 2015, OF gc nz] by simp
qed

lemma len3: "length xs = 3 \<Longrightarrow> \<exists>a b c. xs = [a, b, c]"
  by (auto simp add: length_Suc_conv numeral_3_eq_3)

lemma len4: "length xs = 4 \<Longrightarrow> \<exists>a b c d. xs = [a, b, c, d]"
  by (auto simp add: length_Suc_conv numeral_eq_Suc)

lemma shape3_explicit:
  assumes "shape3 t"
  obtains y0 y1 y2 o0 o1 o2 a00 a01 a02 a10 a11 a12 a20 a21 a22
      p00 p01 p02 p03 p10 p11 p12 p13 p20 p21 p22 p23
  where "t = \<lparr>Y = [y0, y1, y2], YOLD = [o0, o1, o2],
              YAPX = [[a00, a01, a02], [a10, a11, a12], [a20, a21, a22]],
              YP = [[p00, p01, p02, p03], [p10, p11, p12, p13], [p20, p21, p22, p23]]\<rparr>"
proof -
  obtain y0 y1 y2 where y: "Y t = [y0, y1, y2]" using assms len3 unfolding shape3_def by blast
  obtain o0 o1 o2 where o: "YOLD t = [o0, o1, o2]" using assms len3 unfolding shape3_def by blast
  obtain r0 r1 r2 where a: "YAPX t = [r0, r1, r2]" using assms len3 unfolding shape3_def by blast
  obtain q0 q1 q2 where p: "YP t = [q0, q1, q2]" using assms len3 unfolding shape3_def by blast
  have "length r0 = 3" "length r1 = 3" "length r2 = 3" using assms a by (simp_all add: shape3_def)
  then obtain a00 a01 a02 a10 a11 a12 a20 a21 a22 where
    r: "r0 = [a00, a01, a02]" "r1 = [a10, a11, a12]" "r2 = [a20, a21, a22]"
    using len3 by metis
  have "length q0 = 4" "length q1 = 4" "length q2 = 4" using assms p by (simp_all add: shape3_def)
  then obtain p00 p01 p02 p03 p10 p11 p12 p13 p20 p21 p22 p23 where
    q: "q0 = [p00, p01, p02, p03]" "q1 = [p10, p11, p12, p13]" "q2 = [p20, p21, p22, p23]"
    using len4 by metis
  have "t = \<lparr>Y = [y0, y1, y2], YOLD = [o0, o1, o2],
              YAPX = [[a00, a01, a02], [a10, a11, a12], [a20, a21, a22]],
              YP = [[p00, p01, p02, p03], [p10, p11, p12, p13], [p20, p21, p22, p23]]\<rparr>"
    using y o a p r q by (cases t) simp
  then show ?thesis by (rule that)
qed

lemmas acc_defs = getY_def getYOLD_def getYAPX_def getYP_def setY_def setYOLD_def setYAPX_def
  setYP_def get2_def set2_def py_get_def py_set_def py_index_def

lemmas itrace_defs = itrace_def bootstrap_I_def adams_I_def radius_col_def radius_def fdiv_def
  acc_defs Let_def column_def

lemma norm_vec3 [simp]: "norm_vec [a, b, c] = sqrt (a\<^sup>2 + b\<^sup>2 + c\<^sup>2)"
  by (simp add: norm_vec_def)

lemma shape3_mk [simp]:
  "shape3 \<lparr>Y = [y0, y1, y2], YOLD = [o0, o1, o2],
              YAPX = [[a00, a01, a02], [a10, a11, a12], [a20, a21, a22]],
              YP = [[p00, p01, p02, p03], [p10, p11, p12, p13], [p20, p21, p22, p23]]\<rparr>"
  by (simp add: shape3_def)



lemma findApex_loop_stop:
  "\<not> (\<not> arrive s \<and> step s < 100) \<Longrightarrow> findApex_loop body s = Some s"
  by (subst findApex_loop.simps, rule if_not_P)

lemma findApex_loop_go:
  "\<not> arrive s \<Longrightarrow> step s < 100 \<Longrightarrow>
   findApex_loop body s
     = (case body s of None \<Rightarrow> None | Some s' \<Rightarrow> findApex_loop body (s'\<lparr>step := step s + 1\<rparr>))"
  by (subst findApex_loop.simps) simp

lemma findApex_body_Some:
  assumes "findApex_body syn date ctp stp nlon sg s = Some s'"
  shows "trace s' = trace s @ [Y (ts s')] \<and> step s' = step s
       \<and> (\<exists>BX BY BZ BB DS. itrace (ts s) BX BY BZ BB sg DS (step s) = Some (arrive s', ts s'))"
  using assms
  by (auto simp add: findApex_body_def bind_eq_Some_conv Let_def split_beta rotateVector_eq) blast

lemma findApex_loop_bound:
  "findApex_loop body s = Some s' \<Longrightarrow>
         \<forall>u u'. body u = Some u' \<longrightarrow> (\<exists>x. trace u' = trace u @ [x]) \<Longrightarrow> 0 \<le> step s \<Longrightarrow> step s \<le> 100 \<Longrightarrow>
         length (trace s) = nat (step s) + 1 \<Longrightarrow>
         0 \<le> step s' \<and> step s' \<le> 100 \<and> length (trace s') = nat (step s') + 1
         \<and> (\<not> arrive s' \<longrightarrow> step s' = 100) \<and> (\<exists>rest. trace s' = trace s @ rest)"
proof (induction body s rule: findApex_loop.induct)
  case (1 body s)
  show ?case
  proof (cases "\<not> arrive s \<and> step s < 100")
    case False
    then have "s' = s" using "1.prems"(1) findApex_loop_stop [OF False, of body] by simp
    then show ?thesis using "1.prems" False by auto
  next
    case True
    then obtain u where u: "body s = Some u"
      and l: "findApex_loop body (u\<lparr>step := step s + 1\<rparr>) = Some s'"
      using "1.prems"(1) findApex_loop_go [of s body] by (auto split: option.splits)
    obtain x where x: "trace u = trace s @ [x]" using "1.prems"(2) u by blast
    have st: "0 \<le> step (u\<lparr>step := step s + 1\<rparr>)" "step (u\<lparr>step := step s + 1\<rparr>) \<le> 100"
      using True "1.prems"(3) by simp_all
    have ln: "length (trace (u\<lparr>step := step s + 1\<rparr>)) = nat (step (u\<lparr>step := step s + 1\<rparr>)) + 1"
      using x "1.prems"(3,5) by (simp add: nat_add_distrib)
    have ih: "0 \<le> step s' \<and> step s' \<le> 100 \<and> length (trace s') = nat (step s') + 1
         \<and> (\<not> arrive s' \<longrightarrow> step s' = 100)
         \<and> (\<exists>rest. trace s' = trace (u\<lparr>step := step s + 1\<rparr>) @ rest)"
      using "1.IH" [OF True u l "1.prems"(2) st ln] by simp
    then show ?thesis using x by auto
  qed
qed

lemma geodetic2geocentric_reduction:
  "geodetic2geocentric theta alt
     = map_option (\<lambda>(r, cd, sd, ct, st). (arctan2 st ct, arctan2 sd cd, r))
         (geodetic_reduction (cos theta) (sin theta) alt)"
  by (simp add: geodetic2geocentric_def geodetic_reduction_def Let_def map_option_bind comp_def)

lemma launch_total:
  assumes "0 \<le> alt"
  shows "\<exists>x0 y0 z0 lat' lon' rho. launch lat lon alt = Some ([x0, y0, z0], lat', lon', rho)"
proof -
  have u: "sin (pi / 2 - lat / FACT) * sin (pi / 2 - lat / FACT)
           + cos (pi / 2 - lat / FACT) * cos (pi / 2 - lat / FACT) = 1"
    using sin_cos_squared_add [of "pi / 2 - lat / FACT"] by (simp add: power2_eq_square)
  obtain r cd sd ct st where
    "geodetic_reduction (cos (pi / 2 - lat / FACT)) (sin (pi / 2 - lat / FACT)) alt = Some (r, cd, sd, ct, st)"
    using geodetic_reduction_total [OF assms u] by blast
  then show ?thesis
    by (simp add: launch_def geodetic2geocentric_reduction geocentric2cartesian_def Let_def)
qed

lemma findApex_run_Some:
  assumes "findApex_run syn gc lat lon alt date = Some s"
  shows "\<exists>nlat nlon p0 lat' lon' rho bx by' bz bb.
           northPole gc date = Some (nlat, nlon)
         \<and> launch lat lon alt = Some (p0, lat', lon', rho)
         \<and> syn 0 date 2 rho (lat' * FACT) (lon' * FACT) = Some (bx, by', bz, bb)
         \<and> findApex_loop (findApex_body syn date (cos (pi / 2 - nlat / FACT)) (sin (pi / 2 - nlat / FACT))
               (nlon / FACT) (- sgn bz)) (apex_init p0 lat' lon' rho) = Some s"
  using assms
  by (auto simp add: findApex_run_def bind_eq_Some_conv Let_def)

lemma findApex_body_grows:
  "\<forall>u u'. findApex_body syn date ctp stp nlon sg u = Some u' \<longrightarrow> (\<exists>x. trace u' = trace u @ [x])"
  using findApex_body_Some by blast

text \<open>
  Claim C2, as amended. Whenever \<open>findApex\<close> returns, its loop has run at most 100 times,
  the path has one entry more than the loop ran, so at most 101, and the path is what is
  returned. When the loop ends without arrival it has run 100 times and the 101 entries
  gathered so far are returned as the path, in the same form as after an arrival.
\<close>

theorem findApex_at_most_100_steps:
  assumes "findApex_run syn getCoeffs lat lon alt date = Some s"
  shows "0 \<le> step s \<and> step s \<le> 100 \<and> length (trace s) = nat (step s) + 1
       \<and> length (trace s) \<le> 101
       \<and> findApex syn getCoeffs lat lon alt date = Some (trace s)
       \<and> (\<not> arrive s \<longrightarrow> step s = 100 \<and> length (trace s) = 101)"
proof -
  obtain nlat nlon p0 lat' lon' rho bx by' bz bb where
    l: "findApex_loop (findApex_body syn date (cos (pi / 2 - nlat / FACT)) (sin (pi / 2 - nlat / FACT))
               (nlon / FACT) (- sgn bz)) (apex_init p0 lat' lon' rho) = Some s"
    using findApex_run_Some [OF assms] by blast
  have i: "0 \<le> step (apex_init p0 lat' lon' rho)" "step (apex_init p0 lat' lon' rho) \<le> 100"
    "length (trace (apex_init p0 lat' lon' rho)) = nat (step (apex_init p0 lat' lon' rho)) + 1"
    by (simp_all add: apex_init_def)
  have b: "0 \<le> step s \<and> step s \<le> 100 \<and> length (trace s) = nat (step s) + 1
         \<and> (\<not> arrive s \<longrightarrow> step s = 100)"
    using findApex_loop_bound [OF l findApex_body_grows i] by blast
  then have "length (trace s) \<le> 101" by linarith
  moreover have "\<not> arrive s \<longrightarrow> length (trace s) = 101" using b by auto
  moreover have "findApex syn getCoeffs lat lon alt date = Some (trace s)"
    using assms by (simp add: findApex_def)
  ultimately show ?thesis using b by blast
qed


lemma frozen_step:
  assumes f: "frozen p0 n s" and n: "0 \<le> n"
    and syn: "syn 0 date 2 (gcrho s) (gclat s * FACT) (gclon s * FACT) = Some (0, 0, 0, 1)"
  shows "\<exists>u. findApex_body syn date ctp stp nlon sg s = Some u \<and> frozen p0 (n + 1) (u\<lparr>step := n + 1\<rparr>)"
proof -
  have sh: "shape3 (ts s)" using f by (simp add: frozen_def)
  obtain y0 y1 y2 o0 o1 o2 a00 a01 a02 a10 a11 a12 a20 a21 a22
      p00 p01 p02 p03 p10 p11 p12 p13 p20 p21 p22 p23
  where t: "ts s = \<lparr>Y = [y0, y1, y2], YOLD = [o0, o1, o2],
              YAPX = [[a00, a01, a02], [a10, a11, a12], [a20, a21, a22]],
              YP = [[p00, p01, p02, p03], [p10, p11, p12, p13], [p20, p21, p22, p23]]\<rparr>"
    using sh by (rule shape3_explicit)
  have p: "p0 = [y0, y1, y2]" using f t by (simp add: frozen_def)
  have r: "replicate (nat (n + 1) + 1) p0 = replicate (nat n + 1) p0 @ [p0]"
    using n by (simp add: nat_add_distrib replicate_append_same)
  consider "n = 0" | "n = 1" | "n = 2" | "n = 3" | "n = 4" | "n = 5" | "n = 6" | "n = 7" | "8 \<le> n"
    using n by linarith
  then show ?thesis
  proof cases
    case 1 then show ?thesis using f syn r unfolding frozen_def p
      by (simp add: t findApex_body_def rotateVector_eq itrace_defs split_beta)
  next
    case 2 then show ?thesis using f syn r unfolding frozen_def p
      by (simp add: t findApex_body_def rotateVector_eq itrace_defs split_beta)
  next
    case 3 then show ?thesis using f syn r unfolding frozen_def p
      by (simp add: t findApex_body_def rotateVector_eq itrace_defs split_beta)
  next
    case 4 then show ?thesis using f syn r unfolding frozen_def p
      by (simp add: t findApex_body_def rotateVector_eq itrace_defs split_beta)
  next
    case 5 then show ?thesis using f syn r unfolding frozen_def p
      by (simp add: t findApex_body_def rotateVector_eq itrace_defs split_beta)
  next
    case 6 then show ?thesis using f syn r unfolding frozen_def p
      by (simp add: t findApex_body_def rotateVector_eq itrace_defs split_beta)
  next
    case 7 then show ?thesis using f syn r unfolding frozen_def p
      by (simp add: t findApex_body_def rotateVector_eq itrace_defs split_beta)
  next
    case 8 then show ?thesis using f syn r unfolding frozen_def p
      by (simp add: t findApex_body_def rotateVector_eq itrace_defs split_beta)
  next
    case 9 then show ?thesis using f syn r unfolding frozen_def p
      by (simp add: t findApex_body_def rotateVector_eq itrace_defs split_beta)
  qed
qed

lemma frozen_loop:
  assumes syn: "\<forall>a b c. syn 0 date 2 a b c = Some (0, 0, 0, 1)"
  shows "frozen pt n s \<Longrightarrow> 0 \<le> n \<Longrightarrow> n \<le> 100 \<Longrightarrow>
         \<exists>s'. findApex_loop (findApex_body syn date ctp stp nlon sg) s = Some s' \<and> frozen pt 100 s'"
proof (induction "nat (100 - n)" arbitrary: n s)
  case 0
  then have n: "n = 100" by simp
  then have "\<not> (\<not> arrive s \<and> step s < 100)" using "0.prems"(1) by (simp add: frozen_def)
  then show ?case using findApex_loop_stop "0.prems"(1) n by blast
next
  case (Suc k)
  then have n: "n < 100" by simp
  have c: "\<not> arrive s" "step s < 100" "step s = n" using Suc.prems(1) n by (simp_all add: frozen_def)
  obtain u where u: "findApex_body syn date ctp stp nlon sg s = Some u"
    and fu: "frozen pt (n + 1) (u\<lparr>step := n + 1\<rparr>)"
    using frozen_step [OF Suc.prems(1,2)] syn by blast
  have k: "k = nat (100 - (n + 1))" using Suc.hyps(2) by simp
  have "\<exists>s'. findApex_loop (findApex_body syn date ctp stp nlon sg) (u\<lparr>step := n + 1\<rparr>) = Some s'
          \<and> frozen pt 100 s'"
    using Suc.hyps(1) [OF k fu] Suc.prems(2) n by simp
  then show ?case using findApex_loop_go [OF c(1,2)] u c(3) by simp
qed

lemma frozen_init: "frozen [x0, y0, z0] 0 (apex_init [x0, y0, z0] la lo rho)"
  by (simp add: frozen_def apex_init_def shape3_def)

lemma frozen_run:
  assumes syn: "\<forall>a b c. syn 0 date 2 a b c = Some (0, 0, 0, 1)"
    and np: "northPole gc date = Some (nlat, nlon)" and alt: "0 \<le> alt"
  shows "\<exists>s p0 la lo rho. findApex_run syn gc lat lon alt date = Some s \<and> frozen p0 100 s
           \<and> launch lat lon alt = Some (p0, la, lo, rho)"
proof -
  obtain x0 y0 z0 la lo rho where la: "launch lat lon alt = Some ([x0, y0, z0], la, lo, rho)"
    using launch_total [OF alt] by blast
  obtain s' where "findApex_loop (findApex_body syn date (cos (pi / 2 - nlat / FACT))
       (sin (pi / 2 - nlat / FACT)) (nlon / FACT) (- sgn 0)) (apex_init [x0, y0, z0] la lo rho) = Some s'"
    "frozen [x0, y0, z0] 100 s'"
    using frozen_loop [where syn = syn and date = date and pt = "[x0, y0, z0]" and n = 0
        and s = "apex_init [x0, y0, z0] la lo rho", OF syn frozen_init]
    by force
  then show ?thesis using la np syn by (simp add: findApex_run_def Let_def)
qed

lemma syn_of_igrf12_out_of_range:
  "syn_of_igrf12 zero_float zero_file isv 1800 itype alt colat elong = Some (0, 0, 0, 1)"
  by (simp add: syn_of_igrf12_def igrf12syn_loaded [OF load_zero] body_out_of_range)

lemma northPole_dipole:
  "\<exists>nlat nlon. northPole igrf2015_dipole date = Some (nlat, nlon)"
proof -
  have gc: "igrf2015_dipole date = Some ([0] # (- 29442 # - 1501 # []) # [], [0] # (0 # 4797.1 # []) # [])"
    by (simp add: igrf2015_dipole_def)
  have nz: "(- 29442 :: real)\<^sup>2 + (- 1501)\<^sup>2 + 4797.1\<^sup>2 \<noteq> 0" by (simp add: power2_eq_square)
  show ?thesis using northPole_eq [where getCoeffs = igrf2015_dipole and date = date, OF gc nz] by blast
qed

lemma frozen_run_1800:
  "\<exists>s p0 la lo rho. findApex_run (syn_of_igrf12 zero_float zero_file) igrf2015_dipole 20 0 0 1800 = Some s
       \<and> frozen p0 100 s \<and> launch 20 0 0 = Some (p0, la, lo, rho)"
proof -
  obtain nlat nlon where np: "northPole igrf2015_dipole 1800 = Some (nlat, nlon)"
    using northPole_dipole by blast
  have syn: "\<forall>a b c. syn_of_igrf12 zero_float zero_file 0 1800 2 a b c = Some (0, 0, 0, 1)"
    using syn_of_igrf12_out_of_range by blast
  show ?thesis
    using frozen_run [where syn = "syn_of_igrf12 zero_float zero_file" and date = 1800
        and gc = igrf2015_dipole and alt = 0 and lat = 20 and lon = 0, OF syn np]
    by simp
qed

text \<open>The claim as stated fails. For the date 1800 \<open>igrf12syn\<close> of IGRF12.py returns its
  sentinel \<open>(0, 0, 0, 1)\<close> at every point, the position never moves, no radius ever
  decreases, the loop stops at 100 steps without arrival, and \<open>findApex\<close> returns a path
  of 101 entries.\<close>

theorem findApex_cap_returns_path:
  "map_option (\<lambda>s. (arrive s, step s))
      (findApex_run (syn_of_igrf12 zero_float zero_file) igrf2015_dipole 20 0 0 1800) = Some (False, 100)
   \<and> map_option length
      (findApex (syn_of_igrf12 zero_float zero_file) igrf2015_dipole 20 0 0 1800) = Some 101"
proof -
  obtain s p0 where "findApex_run (syn_of_igrf12 zero_float zero_file) igrf2015_dipole 20 0 0 1800 = Some s"
    "frozen p0 100 s"
    using frozen_run_1800 by blast
  then show ?thesis by (simp add: findApex_def frozen_def)
qed

theorem findApex_at_most_100_steps_witness:
  "\<exists>s. findApex_run (syn_of_igrf12 zero_float zero_file) igrf2015_dipole 20 0 0 1800 = Some s
      \<and> 0 \<le> step s \<and> step s \<le> 100 \<and> length (trace s) = nat (step s) + 1
      \<and> length (trace s) \<le> 101
      \<and> findApex (syn_of_igrf12 zero_float zero_file) igrf2015_dipole 20 0 0 1800 = Some (trace s)"
proof -
  obtain s where s: "findApex_run (syn_of_igrf12 zero_float zero_file) igrf2015_dipole 20 0 0 1800 = Some s"
    using frozen_run_1800 by blast
  show ?thesis using s findApex_at_most_100_steps [OF s] by blast
qed




end
